theory Spec2Isabelle
  imports Complex_Main "HOL-Library.Word" "HOL-Library.Monad_Syntax"
begin

unbundle bit_operations_syntax

section \<open>The base transport of yojimbo (yojimbo\_transport.cpp)\<close>

text \<open>
  The file under verification is the implementation of \<open>BaseTransport\<close>. The classes it
  drives (the packet queue, the packet processor, the encryption and context managers, the
  packet factory, the allocator, the address) are declared in headers that are not part of
  the sources; they are modelled below from the specification, or taken as parameters of
  the model.

  Embedded are the constructor, \<open>SetPacketFactory\<close>, \<open>SendPacket\<close>, \<open>ReceivePacket\<close>,
  \<open>WritePackets\<close>, \<open>WriteAndFlushPacket\<close>, \<open>ReadPackets\<close>, \<open>EnablePacketEncryption\<close>,
  \<open>DisableEncryptionForPacketType\<close>, \<open>IsEncryptedPacketType\<close> and the accessors they call.

  A C++ function that mutates the transport becomes a function from the transport to the
  new transport. A failed \<open>assert\<close> and a dereferenced null pointer stop the program: the
  result is \<open>None\<close>, and \<open>Some\<close> carries the state in which the function returns. The
  transport's time is a \<open>double\<close> that the functions below only pass on to the encryption
  manager; it is a real number here.
\<close>

subsection \<open>Data the transport handles\<close>

type_synonym Allocator = nat

type_synonym VoidPtr = "nat option"

type_synonym Key = "8 word list"

type_synonym Bytes = "8 word list"

text \<open>
  Modelled from the spec: the address class (yojimbo\_address.h is missing). A network
  address is the default-constructed address \<open>Address()\<close>, which is not valid, or an
  endpoint.
\<close>

datatype Address = Address_Default | Address_Endpoint nat

definition Address_IsValid :: "Address \<Rightarrow> bool" where
  "Address_IsValid a = (a \<noteq> Address_Default)"

text \<open>
  A packet object: its type id, its validity predicate, and an identity that tells two
  objects of the same type apart. A \<open>Packet *\<close> is a \<open>Packet option\<close>.
\<close>

record Packet =
  GetType :: int
  IsValid :: bool
  packet_ident :: nat

record PacketFactory =
  GetNumPacketTypes :: int
  factory_ident :: nat

record PacketEntry =
  entry_sequence :: "64 word"
  entry_address :: Address
  entry_packet :: "Packet option"

text \<open>The per-address context the context manager hands out (\<open>struct Context\<close>).\<close>

record Context =
  context_streamAllocator :: "Allocator option"
  context_packetFactory :: "PacketFactory option"
  context_contextData :: VoidPtr

text \<open>
  The error codes of the packet processor that the transport names, and the transport's
  counters. The enumerations are declared in missing headers; the constructors are the
  enumerators the source uses, taken to be distinct.
\<close>

datatype PacketProcessorError =
    PACKET_PROCESSOR_ERROR_KEY_IS_NULL
  | PACKET_PROCESSOR_ERROR_ENCRYPT_FAILED
  | PACKET_PROCESSOR_ERROR_WRITE_PACKET_FAILED
  | PACKET_PROCESSOR_ERROR_DECRYPT_FAILED
  | PACKET_PROCESSOR_ERROR_PACKET_TOO_SMALL
  | PACKET_PROCESSOR_ERROR_READ_PACKET_FAILED

datatype TransportCounter =
    TRANSPORT_COUNTER_PACKETS_SENT
  | TRANSPORT_COUNTER_PACKETS_RECEIVED
  | TRANSPORT_COUNTER_PACKETS_READ
  | TRANSPORT_COUNTER_PACKETS_WRITTEN
  | TRANSPORT_COUNTER_SEND_QUEUE_OVERFLOW
  | TRANSPORT_COUNTER_RECEIVE_QUEUE_OVERFLOW
  | TRANSPORT_COUNTER_READ_PACKET_FAILURES
  | TRANSPORT_COUNTER_WRITE_PACKET_FAILURES
  | TRANSPORT_COUNTER_ENCRYPT_PACKET_FAILURES
  | TRANSPORT_COUNTER_DECRYPT_PACKET_FAILURES
  | TRANSPORT_COUNTER_ENCRYPTED_PACKETS_READ
  | TRANSPORT_COUNTER_ENCRYPTED_PACKETS_WRITTEN
  | TRANSPORT_COUNTER_UNENCRYPTED_PACKETS_READ
  | TRANSPORT_COUNTER_UNENCRYPTED_PACKETS_WRITTEN
  | TRANSPORT_COUNTER_ENCRYPTION_MAPPING_FAILURES

subsection \<open>The bounded packet queue\<close>

text \<open>
  Modelled from the spec: \<open>Queue<PacketEntry>\<close> (yojimbo\_queue.h is missing). A FIFO of
  fixed capacity; a push on a full queue is rejected and changes nothing; a pop on an empty
  queue is undefined (\<open>None\<close> here), callers check for emptiness first.
\<close>

record Queue =
  queue_entries :: "PacketEntry list"
  queue_size :: nat

definition Queue_new :: "int \<Rightarrow> Queue" where
  "Queue_new arraySize = \<lparr>queue_entries = [], queue_size = nat arraySize\<rparr>"

definition Queue_IsFull :: "Queue \<Rightarrow> bool" where
  "Queue_IsFull q = (length (queue_entries q) = queue_size q)"

definition Queue_IsEmpty :: "Queue \<Rightarrow> bool" where
  "Queue_IsEmpty q = (queue_entries q = [])"

definition Queue_Push :: "Queue \<Rightarrow> PacketEntry \<Rightarrow> Queue" where
  "Queue_Push q entry =
     (if Queue_IsFull q then q else q\<lparr>queue_entries := queue_entries q @ [entry]\<rparr>)"

definition Queue_Pop :: "Queue \<Rightarrow> (PacketEntry \<times> Queue) option" where
  "Queue_Pop q =
     (case queue_entries q of
        [] \<Rightarrow> None
      | entry # rest \<Rightarrow> Some (entry, q\<lparr>queue_entries := rest\<rparr>))"

subsection \<open>The collaborators\<close>

text \<open>
  The packet processor object the transport owns: the maximum packet size it was built
  with, the context pointer last given to \<open>SetContext\<close>, and the calls of \<open>WritePacket\<close> and
  \<open>ReadPacket\<close> the transport has made on it, oldest first, with the arguments passed.
\<close>

datatype ProcessorCall =
    WritePacketCall Packet "64 word" bool "Key option" Allocator PacketFactory
  | ReadPacketCall Bytes "Key option" "Bytes option" "Bytes option" Allocator PacketFactory

record PacketProcessor =
  processor_maxPacketSize :: int
  processor_context :: VoidPtr
  processor_calls :: "ProcessorCall list"

text \<open>
  What the build and the collaborators contribute, as parameters of the model: the
  compile-time switch \<open>YOJIMBO_INSECURE_CONNECT\<close> and the flag bit
  \<open>TRANSPORT_FLAG_INSECURE_MODE\<close> (missing headers); the freshly constructed encryption and
  context managers and their lookups (a key lookup may update the manager, which records
  access times); and the results of the packet processor's \<open>WritePacket\<close> and \<open>ReadPacket\<close>,
  as functions of their arguments and of the context pointer set before the call. A
  failed call is \<open>Inl\<close> of the error \<open>GetError\<close> reports, a successful write is \<open>Inr\<close> of
  the packet data, a successful read \<open>Inr\<close> of the packet, its sequence number and
  whether it was encrypted.
\<close>

record ('em, 'cm) Environment =
  YOJIMBO_INSECURE_CONNECT :: bool
  TRANSPORT_FLAG_INSECURE_MODE :: "64 word"
  EncryptionManager_new :: 'em
  ContextManager_new :: 'cm
  GetSendKey :: "'em \<Rightarrow> Address \<Rightarrow> real \<Rightarrow> Key option \<times> 'em"
  GetReceiveKey :: "'em \<Rightarrow> Address \<Rightarrow> real \<Rightarrow> Key option \<times> 'em"
  GetContext :: "'cm \<Rightarrow> Address \<Rightarrow> Context option"
  WritePacket :: "VoidPtr \<Rightarrow> Packet \<Rightarrow> 64 word \<Rightarrow> bool \<Rightarrow> Key option \<Rightarrow> Allocator \<Rightarrow>
    PacketFactory \<Rightarrow> PacketProcessorError + Bytes"
  ReadPacket :: "VoidPtr \<Rightarrow> Bytes \<Rightarrow> Key option \<Rightarrow> Bytes option \<Rightarrow> Bytes option \<Rightarrow>
    Allocator \<Rightarrow> PacketFactory \<Rightarrow> PacketProcessorError + (Packet \<times> 64 word \<times> bool)"

subsection \<open>The transport\<close>

text \<open>
  The members of \<open>BaseTransport\<close>, and three fields that record what the transport does to
  the world around it: \<open>destroyed\<close>, the packets on which \<open>Destroy\<close> was called, oldest
  first; \<open>io_sent\<close>, the datagrams handed to \<open>InternalSendPacket\<close>; and \<open>io_pending\<close>, the
  datagrams waiting at the raw I/O layer for \<open>InternalReceivePacket\<close>.
\<close>

record ('em, 'cm) BaseTransport =
  m_address :: Address
  m_time :: real
  m_flags :: "64 word"
  m_context :: VoidPtr
  m_allocator :: "Allocator option"
  m_streamAllocator :: "Allocator option"
  m_protocolId :: "32 word"
  m_packetFactory :: "PacketFactory option"
  m_packetProcessor :: "PacketProcessor option"
  m_counters :: "TransportCounter \<Rightarrow> 64 word"
  m_allPacketTypes :: "Bytes option"
  m_packetTypeIsEncrypted :: "Bytes option"
  m_packetTypeIsUnencrypted :: "Bytes option"
  m_contextManager :: 'cm
  m_encryptionManager :: 'em
  m_sendQueue :: Queue
  m_receiveQueue :: Queue
  destroyed :: "Packet list"
  io_sent :: "(Address \<times> Bytes) list"
  io_pending :: "(Address \<times> Bytes) list"

definition assert :: "bool \<Rightarrow> unit option" where
  "assert b = (if b then Some () else None)"

definition increment ::
  "TransportCounter \<Rightarrow> ('em, 'cm) BaseTransport \<Rightarrow> ('em, 'cm) BaseTransport" where
  "increment c t = t\<lparr>m_counters := (m_counters t)(c := m_counters t c + 1)\<rparr>"

definition Packet_Destroy ::
  "Packet \<Rightarrow> ('em, 'cm) BaseTransport \<Rightarrow> ('em, 'cm) BaseTransport" where
  "Packet_Destroy p t = t\<lparr>destroyed := destroyed t @ [p]\<rparr>"

definition BaseTransport_new ::
  "('em, 'cm) Environment \<Rightarrow> Allocator \<Rightarrow> Address \<Rightarrow> 32 word \<Rightarrow> int \<Rightarrow> int \<Rightarrow> int \<Rightarrow>
   ('em, 'cm) BaseTransport option" where
  "BaseTransport_new env allocator address protocolId maxPacketSize sendQueueSize
       receiveQueueSize =
     do {
       assert (protocolId \<noteq> 0);
       assert (sendQueueSize > 0);
       assert (receiveQueueSize > 0);
       Some \<lparr>m_address = address,
             m_time = 0,
             m_flags = 0,
             m_context = None,
             m_allocator = Some allocator,
             m_streamAllocator = Some allocator,
             m_protocolId = protocolId,
             m_packetFactory = None,
             m_packetProcessor =
               Some \<lparr>processor_maxPacketSize = maxPacketSize, processor_context = None,
                     processor_calls = []\<rparr>,
             m_counters = (\<lambda>c. 0),
             m_allPacketTypes = None,
             m_packetTypeIsEncrypted = None,
             m_packetTypeIsUnencrypted = None,
             m_contextManager = ContextManager_new env,
             m_encryptionManager = EncryptionManager_new env,
             m_sendQueue = Queue_new sendQueueSize,
             m_receiveQueue = Queue_new receiveQueueSize,
             destroyed = [],
             io_sent = [],
             io_pending = []\<rparr>
     }"

text \<open>
  \<open>SetPacketFactory\<close>: the three tables are allocated with one byte per packet type and
  filled by \<open>memset\<close>; \<open>m_allPacketTypes\<close> exists only in a build with
  \<open>YOJIMBO_INSECURE_CONNECT\<close>. The allocator is taken to return the memory asked for.
\<close>

definition SetPacketFactory ::
  "('em, 'cm) Environment \<Rightarrow> ('em, 'cm) BaseTransport \<Rightarrow> PacketFactory \<Rightarrow>
   ('em, 'cm) BaseTransport option" where
  "SetPacketFactory env t packetFactory =
     do {
       assert (m_packetFactory t = None);
       let numPacketTypes = GetNumPacketTypes packetFactory;
       assert (numPacketTypes > 0);
       _ \<leftarrow> m_allocator t;
       Some (t\<lparr>m_packetFactory := Some packetFactory,
               m_allPacketTypes :=
                 (if YOJIMBO_INSECURE_CONNECT env
                  then Some (replicate (nat numPacketTypes) 1) else m_allPacketTypes t),
               m_packetTypeIsEncrypted := Some (replicate (nat numPacketTypes) 0),
               m_packetTypeIsUnencrypted := Some (replicate (nat numPacketTypes) 1)\<rparr>)
     }"

definition GetTime :: "('em, 'cm) BaseTransport \<Rightarrow> real" where
  "GetTime t = m_time t"

definition GetFlags :: "('em, 'cm) BaseTransport \<Rightarrow> 64 word" where
  "GetFlags t = m_flags t"

definition SetFlags :: "('em, 'cm) BaseTransport \<Rightarrow> 64 word \<Rightarrow> ('em, 'cm) BaseTransport" where
  "SetFlags t flags = t\<lparr>m_flags := flags\<rparr>"

definition GetCounter :: "('em, 'cm) BaseTransport \<Rightarrow> TransportCounter \<Rightarrow> 64 word" where
  "GetCounter t index = m_counters t index"

definition GetMaxPacketSize :: "('em, 'cm) BaseTransport \<Rightarrow> int option" where
  "GetMaxPacketSize t = map_option processor_maxPacketSize (m_packetProcessor t)"

text \<open>
  The classification tables. \<open>memset\<close> over a table fills its first \<open>GetNumPacketTypes\<close>
  bytes; a write or read through a null table, or beyond its end, stops the program.
\<close>

definition memset :: "Bytes option \<Rightarrow> 8 word \<Rightarrow> int \<Rightarrow> Bytes option" where
  "memset table v n =
     (case table of
        None \<Rightarrow> None
      | Some bytes \<Rightarrow>
          if nat n \<le> length bytes
          then Some (replicate (nat n) v @ drop (nat n) bytes) else None)"

definition EnablePacketEncryption ::
  "('em, 'cm) BaseTransport \<Rightarrow> ('em, 'cm) BaseTransport option" where
  "EnablePacketEncryption t =
     do {
       packetFactory \<leftarrow> m_packetFactory t;
       encrypted \<leftarrow> memset (m_packetTypeIsEncrypted t) 1 (GetNumPacketTypes packetFactory);
       unencrypted \<leftarrow> memset (m_packetTypeIsUnencrypted t) 0 (GetNumPacketTypes packetFactory);
       Some (t\<lparr>m_packetTypeIsEncrypted := Some encrypted,
               m_packetTypeIsUnencrypted := Some unencrypted\<rparr>)
     }"

definition DisableEncryptionForPacketType ::
  "('em, 'cm) BaseTransport \<Rightarrow> int \<Rightarrow> ('em, 'cm) BaseTransport option" where
  "DisableEncryptionForPacketType t type =
     do {
       packetFactory \<leftarrow> m_packetFactory t;
       assert (type \<ge> 0);
       assert (type < GetNumPacketTypes packetFactory);
       encrypted \<leftarrow> m_packetTypeIsEncrypted t;
       assert (nat type < length encrypted);
       unencrypted \<leftarrow> m_packetTypeIsUnencrypted t;
       assert (nat type < length unencrypted);
       Some (t\<lparr>m_packetTypeIsEncrypted := Some (encrypted[nat type := 0]),
               m_packetTypeIsUnencrypted := Some (unencrypted[nat type := 1])\<rparr>)
     }"

definition IsEncryptedPacketType :: "('em, 'cm) BaseTransport \<Rightarrow> int \<Rightarrow> bool option" where
  "IsEncryptedPacketType t type =
     do {
       packetFactory \<leftarrow> m_packetFactory t;
       assert (type \<ge> 0);
       assert (type < GetNumPacketTypes packetFactory);
       encrypted \<leftarrow> m_packetTypeIsEncrypted t;
       assert (nat type < length encrypted);
       Some (encrypted ! nat type \<noteq> 0)
     }"

subsection \<open>The raw I/O layer\<close>

text \<open>
  Modelled from the spec: \<open>InternalSendPacket\<close> and \<open>InternalReceivePacket\<close> are pure
  virtual in the base transport. Sending hands the bytes to the raw layer. Receiving takes
  the oldest pending datagram off the raw layer, copies at most \<open>maxPacketSize\<close> of its
  bytes into the buffer and returns their number; with nothing pending it returns 0.
\<close>

definition InternalSendPacket ::
  "('em, 'cm) BaseTransport \<Rightarrow> Address \<Rightarrow> Bytes \<Rightarrow> ('em, 'cm) BaseTransport" where
  "InternalSendPacket t address packetData = t\<lparr>io_sent := io_sent t @ [(address, packetData)]\<rparr>"

definition InternalReceivePacket ::
  "('em, 'cm) BaseTransport \<Rightarrow> int \<Rightarrow> ('em, 'cm) BaseTransport \<times> Address \<times> Bytes \<times> int" where
  "InternalReceivePacket t maxPacketSize =
     (case io_pending t of
        [] \<Rightarrow> (t, Address_Default, [], 0)
      | (address, datagram) # rest \<Rightarrow>
          (t\<lparr>io_pending := rest\<rparr>, address, take (nat maxPacketSize) datagram,
           int (length (take (nat maxPacketSize) datagram))))"

subsection \<open>The write path\<close>

definition WriteAndFlushPacket ::
  "('em, 'cm) Environment \<Rightarrow> ('em, 'cm) BaseTransport \<Rightarrow> Address \<Rightarrow> Packet option \<Rightarrow> 64 word \<Rightarrow>
   ('em, 'cm) BaseTransport option" where
  "WriteAndFlushPacket env t address packet sequence =
     do {
       primaryFactory \<leftarrow> m_packetFactory t;
       p \<leftarrow> packet;
       assert (IsValid p);
       assert (Address_IsValid address);
       let packetType = GetType p;
       assert (packetType \<ge> 0);
       assert (packetType < GetNumPacketTypes primaryFactory);
       let (key, encryptionManager) =
             GetSendKey env (m_encryptionManager t) address (GetTime t);
       let t1 = t\<lparr>m_encryptionManager := encryptionManager\<rparr>;
       isEncrypted \<leftarrow> IsEncryptedPacketType t1 packetType;
       let encrypt =
             (if YOJIMBO_INSECURE_CONNECT env
              then (if GetFlags t1 AND TRANSPORT_FLAG_INSECURE_MODE env \<noteq> 0
                    then isEncrypted \<and> key \<noteq> None else isEncrypted)
              else isEncrypted);
       let context = GetContext env (m_contextManager t1) address;
       streamAllocator \<leftarrow>
         (case context of Some c \<Rightarrow> context_streamAllocator c | None \<Rightarrow> m_streamAllocator t1);
       packetFactory \<leftarrow>
         (case context of Some c \<Rightarrow> context_packetFactory c | None \<Rightarrow> m_packetFactory t1);
       assert (GetNumPacketTypes packetFactory = GetNumPacketTypes primaryFactory);
       processor \<leftarrow> m_packetProcessor t1;
       let contextData =
             (case context of Some c \<Rightarrow> context_contextData c | None \<Rightarrow> m_context t1);
       let t2 = t1\<lparr>m_packetProcessor := Some (processor
                  \<lparr>processor_context := contextData,
                   processor_calls := processor_calls processor @
                     [WritePacketCall p sequence encrypt key streamAllocator packetFactory]\<rparr>)\<rparr>;
       (case WritePacket env contextData p sequence encrypt key streamAllocator packetFactory of
          Inl error \<Rightarrow>
            (case error of
               PACKET_PROCESSOR_ERROR_KEY_IS_NULL \<Rightarrow>
                 Some (increment TRANSPORT_COUNTER_ENCRYPTION_MAPPING_FAILURES t2)
             | PACKET_PROCESSOR_ERROR_ENCRYPT_FAILED \<Rightarrow>
                 Some (increment TRANSPORT_COUNTER_ENCRYPT_PACKET_FAILURES t2)
             | PACKET_PROCESSOR_ERROR_WRITE_PACKET_FAILED \<Rightarrow>
                 Some (increment TRANSPORT_COUNTER_WRITE_PACKET_FAILURES t2)
             | _ \<Rightarrow> Some t2)
        | Inr packetData \<Rightarrow>
            (let t3 = InternalSendPacket t2 address packetData;
                 t4 = increment TRANSPORT_COUNTER_PACKETS_WRITTEN t3
             in if encrypt
                then Some (increment TRANSPORT_COUNTER_ENCRYPTED_PACKETS_WRITTEN t4)
                else Some (increment TRANSPORT_COUNTER_UNENCRYPTED_PACKETS_WRITTEN t4)))
     }"

definition SendPacket ::
  "('em, 'cm) Environment \<Rightarrow> ('em, 'cm) BaseTransport \<Rightarrow> Address \<Rightarrow> Packet option \<Rightarrow> 64 word \<Rightarrow>
   bool \<Rightarrow> ('em, 'cm) BaseTransport option" where
  "SendPacket env t address packet sequence immediate =
     do {
       assert (m_allocator t \<noteq> None);
       assert (m_packetFactory t \<noteq> None);
       p \<leftarrow> packet;
       assert (IsValid p);
       assert (Address_IsValid address);
       if immediate then
         do {
           let t1 = increment TRANSPORT_COUNTER_PACKETS_SENT t;
           t2 \<leftarrow> WriteAndFlushPacket env t1 address packet sequence;
           let t3 = Packet_Destroy p t2;
           Some (increment TRANSPORT_COUNTER_PACKETS_SENT t3)
         }
       else if \<not> Queue_IsFull (m_sendQueue t) then
         (let entry = \<lparr>entry_sequence = sequence, entry_address = address,
                       entry_packet = packet\<rparr>;
              t1 = t\<lparr>m_sendQueue := Queue_Push (m_sendQueue t) entry\<rparr>
          in Some (increment TRANSPORT_COUNTER_PACKETS_SENT t1))
       else
         (let t1 = increment TRANSPORT_COUNTER_SEND_QUEUE_OVERFLOW t
          in Some (Packet_Destroy p t1))
     }"

text \<open>
  \<open>ReceivePacket\<close> writes the address through the reference \<open>from\<close> and the sequence number
  through the pointer \<open>sequence\<close> when it is not null. The model takes the value \<open>from\<close>
  holds before the call and, for \<open>sequence\<close>, \<open>None\<close> for a null pointer and \<open>Some\<close> of the
  value pointed to otherwise, and returns the packet pointer, both values after the call,
  and the transport.
\<close>

definition ReceivePacket ::
  "('em, 'cm) BaseTransport \<Rightarrow> Address \<Rightarrow> 64 word option \<Rightarrow>
   (Packet option \<times> Address \<times> 64 word option \<times> ('em, 'cm) BaseTransport) option" where
  "ReceivePacket t from' sequence =
     (if m_packetFactory t = None then Some (None, from', sequence, t)
      else
        do {
          assert (m_allocator t \<noteq> None);
          assert (m_packetFactory t \<noteq> None);
          if Queue_IsEmpty (m_receiveQueue t) then Some (None, from', sequence, t)
          else
            do {
              (entry, queue) \<leftarrow> Queue_Pop (m_receiveQueue t);
              let t1 = t\<lparr>m_receiveQueue := queue\<rparr>;
              p \<leftarrow> entry_packet entry;
              assert (IsValid p);
              assert (Address_IsValid (entry_address entry));
              Some (Some p, entry_address entry,
                    (case sequence of None \<Rightarrow> None | Some _ \<Rightarrow> Some (entry_sequence entry)),
                    increment TRANSPORT_COUNTER_PACKETS_RECEIVED t1)
            }
        })"

text \<open>One turn of the loop of \<open>WritePackets\<close>, entered with a send queue that is not empty.\<close>

definition WritePackets_body ::
  "('em, 'cm) Environment \<Rightarrow> ('em, 'cm) BaseTransport \<Rightarrow> ('em, 'cm) BaseTransport option" where
  "WritePackets_body env t =
     do {
       (entry, queue) \<leftarrow> Queue_Pop (m_sendQueue t);
       let t1 = t\<lparr>m_sendQueue := queue\<rparr>;
       p \<leftarrow> entry_packet entry;
       assert (IsValid p);
       assert (Address_IsValid (entry_address entry));
       t2 \<leftarrow> WriteAndFlushPacket env t1 (entry_address entry) (entry_packet entry)
               (entry_sequence entry);
       Some (Packet_Destroy p t2)
     }"

function WritePackets_loop ::
  "('em, 'cm) Environment \<Rightarrow> ('em, 'cm) BaseTransport \<Rightarrow> ('em, 'cm) BaseTransport option" where
  "WritePackets_loop env t =
     (if \<not> Queue_IsEmpty (m_sendQueue t)
      then (case WritePackets_body env t of
              None \<Rightarrow> None
            | Some t' \<Rightarrow> WritePackets_loop env t')
      else Some t)"
  by pat_completeness auto

lemma WriteAndFlushPacket_sendQueue:
  "WriteAndFlushPacket env t address packet sequence = Some t' \<Longrightarrow>
   m_sendQueue t' = m_sendQueue t"
  by (auto simp: WriteAndFlushPacket_def Let_def increment_def InternalSendPacket_def
      split: Option.bind_splits prod.splits sum.splits PacketProcessorError.splits if_splits)

lemma WritePackets_body_shrinks:
  "WritePackets_body env t = Some t' \<Longrightarrow>
   length (queue_entries (m_sendQueue t')) < length (queue_entries (m_sendQueue t))"
  by (auto simp: WritePackets_body_def Queue_Pop_def Packet_Destroy_def Let_def
      dest!: WriteAndFlushPacket_sendQueue
      split: Option.bind_splits prod.splits list.splits)

termination WritePackets_loop
  by (relation "measure (\<lambda>(env, t). length (queue_entries (m_sendQueue t)))")
     (auto dest: WritePackets_body_shrinks)

definition WritePackets ::
  "('em, 'cm) Environment \<Rightarrow> ('em, 'cm) BaseTransport \<Rightarrow> ('em, 'cm) BaseTransport option" where
  "WritePackets env t =
     (if m_packetFactory t = None then Some t
      else
        do {
          assert (m_allocator t \<noteq> None);
          assert (m_packetFactory t \<noteq> None);
          assert (m_packetProcessor t \<noteq> None);
          WritePackets_loop env t
        })"

subsection \<open>The read path\<close>

text \<open>
  One turn of the \<open>while ( true )\<close> loop of \<open>ReadPackets\<close>: it ends in \<open>break\<close>, or in
  \<open>continue\<close> (also when it reaches the end of the loop body), with the transport as it
  is then.
\<close>

datatype LoopControl = Break | Continue

definition ReadPackets_body ::
  "('em, 'cm) Environment \<Rightarrow> int \<Rightarrow> ('em, 'cm) BaseTransport \<Rightarrow>
   (LoopControl \<times> ('em, 'cm) BaseTransport) option" where
  "ReadPackets_body env maxPacketSize t =
     (let (t1, address, packetBuffer, packetBytes) = InternalReceivePacket t maxPacketSize
      in if packetBytes = 0 then Some (Break, t1)
         else
           do {
             assert (packetBytes > 0);
             if Queue_IsFull (m_receiveQueue t1)
             then Some (Break, increment TRANSPORT_COUNTER_RECEIVE_QUEUE_OVERFLOW t1)
             else
               do {
                 let insecure = (YOJIMBO_INSECURE_CONNECT env \<and>
                       GetFlags t1 AND TRANSPORT_FLAG_INSECURE_MODE env \<noteq> 0);
                 let encryptedPacketTypes =
                       (if insecure then m_allPacketTypes t1 else m_packetTypeIsEncrypted t1);
                 let unencryptedPacketTypes =
                       (if insecure then m_allPacketTypes t1 else m_packetTypeIsUnencrypted t1);
                 let (key, encryptionManager) =
                       GetReceiveKey env (m_encryptionManager t1) address (GetTime t1);
                 let t2 = t1\<lparr>m_encryptionManager := encryptionManager\<rparr>;
                 let context = GetContext env (m_contextManager t2) address;
                 streamAllocator \<leftarrow>
                   (case context of Some c \<Rightarrow> context_streamAllocator c
                    | None \<Rightarrow> m_streamAllocator t2);
                 packetFactory \<leftarrow>
                   (case context of Some c \<Rightarrow> context_packetFactory c
                    | None \<Rightarrow> m_packetFactory t2);
                 primaryFactory \<leftarrow> m_packetFactory t2;
                 assert (GetNumPacketTypes packetFactory = GetNumPacketTypes primaryFactory);
                 processor \<leftarrow> m_packetProcessor t2;
                 let contextData =
                       (case context of Some c \<Rightarrow> context_contextData c | None \<Rightarrow> m_context t2);
                 let t3 = t2\<lparr>m_packetProcessor := Some (processor
                            \<lparr>processor_context := contextData,
                             processor_calls := processor_calls processor @
                               [ReadPacketCall packetBuffer key encryptedPacketTypes
                                  unencryptedPacketTypes streamAllocator packetFactory]\<rparr>)\<rparr>;
                 (case ReadPacket env contextData packetBuffer key encryptedPacketTypes
                         unencryptedPacketTypes streamAllocator packetFactory of
                    Inl error \<Rightarrow>
                      (case error of
                         PACKET_PROCESSOR_ERROR_KEY_IS_NULL \<Rightarrow>
                           Some (Continue,
                                 increment TRANSPORT_COUNTER_ENCRYPTION_MAPPING_FAILURES t3)
                       | PACKET_PROCESSOR_ERROR_DECRYPT_FAILED \<Rightarrow>
                           Some (Continue,
                                 increment TRANSPORT_COUNTER_ENCRYPT_PACKET_FAILURES t3)
                       | PACKET_PROCESSOR_ERROR_PACKET_TOO_SMALL \<Rightarrow>
                           Some (Continue,
                                 increment TRANSPORT_COUNTER_DECRYPT_PACKET_FAILURES t3)
                       | PACKET_PROCESSOR_ERROR_READ_PACKET_FAILED \<Rightarrow>
                           Some (Continue,
                                 increment TRANSPORT_COUNTER_READ_PACKET_FAILURES t3)
                       | _ \<Rightarrow> Some (Continue, t3))
                  | Inr (packet, sequence, encrypted) \<Rightarrow>
                      (let entry = \<lparr>entry_sequence = sequence, entry_address = address,
                                    entry_packet = Some packet\<rparr>;
                           t4 = t3\<lparr>m_receiveQueue := Queue_Push (m_receiveQueue t3) entry\<rparr>;
                           t5 = increment TRANSPORT_COUNTER_PACKETS_READ t4
                       in if encrypted
                          then Some (Continue,
                                     increment TRANSPORT_COUNTER_ENCRYPTED_PACKETS_READ t5)
                          else Some (Continue,
                                     increment TRANSPORT_COUNTER_UNENCRYPTED_PACKETS_READ t5)))
               }
           })"

function ReadPackets_loop ::
  "('em, 'cm) Environment \<Rightarrow> int \<Rightarrow> ('em, 'cm) BaseTransport \<Rightarrow>
   ('em, 'cm) BaseTransport option" where
  "ReadPackets_loop env maxPacketSize t =
     (case ReadPackets_body env maxPacketSize t of
        None \<Rightarrow> None
      | Some (Break, t') \<Rightarrow> Some t'
      | Some (Continue, t') \<Rightarrow> ReadPackets_loop env maxPacketSize t')"
  by pat_completeness auto

lemma InternalReceivePacket_pending:
  "InternalReceivePacket t maxPacketSize = (t1, address, packetBuffer, packetBytes) \<Longrightarrow>
   packetBytes \<noteq> 0 \<Longrightarrow> length (io_pending t1) < length (io_pending t)"
  by (auto simp: InternalReceivePacket_def split: list.splits)

lemma ReadPackets_body_shrinks:
  "ReadPackets_body env maxPacketSize t = Some (Continue, t') \<Longrightarrow>
   length (io_pending t') < length (io_pending t)"
  by (auto simp: ReadPackets_body_def Let_def increment_def
      dest!: InternalReceivePacket_pending
      split: Option.bind_splits prod.splits sum.splits PacketProcessorError.splits if_splits)

termination ReadPackets_loop
  by (relation "measure (\<lambda>(env, maxPacketSize, t). length (io_pending t))")
     (auto dest: ReadPackets_body_shrinks)

definition ReadPackets ::
  "('em, 'cm) Environment \<Rightarrow> ('em, 'cm) BaseTransport \<Rightarrow> ('em, 'cm) BaseTransport option" where
  "ReadPackets env t =
     (if m_packetFactory t = None then Some t
      else
        do {
          assert (m_allocator t \<noteq> None);
          assert (m_packetFactory t \<noteq> None);
          assert (m_packetProcessor t \<noteq> None);
          maxPacketSize \<leftarrow> GetMaxPacketSize t;
          ReadPackets_loop env maxPacketSize t
        })"

subsection \<open>Predicates of the specification\<close>

text \<open>
  The two classification tables are complementary when both are allocated with one entry
  per packet type of the attached factory and, at every index, exactly one of the two
  entries is set.
\<close>

definition classification_complementary :: "('em, 'cm) BaseTransport \<Rightarrow> bool" where
  "classification_complementary t =
     (case (m_packetFactory t, m_packetTypeIsEncrypted t, m_packetTypeIsUnencrypted t) of
        (Some packetFactory, Some encrypted, Some unencrypted) \<Rightarrow>
          length encrypted = nat (GetNumPacketTypes packetFactory) \<and>
          length unencrypted = nat (GetNumPacketTypes packetFactory) \<and>
          list_all2 (\<lambda>e u. (e \<noteq> 0) \<noteq> (u \<noteq> 0)) encrypted unencrypted
      | _ \<Rightarrow> False)"

text \<open>
  Insecure mode is engaged when the build has \<open>YOJIMBO_INSECURE_CONNECT\<close> and the flag bit
  is set on the transport; a build without the switch has no insecure mode.
\<close>

definition insecure_mode :: "('em, 'cm) Environment \<Rightarrow> ('em, 'cm) BaseTransport \<Rightarrow> bool" where
  "insecure_mode env t =
     (YOJIMBO_INSECURE_CONNECT env \<and> GetFlags t AND TRANSPORT_FLAG_INSECURE_MODE env \<noteq> 0)"

text \<open>
  The three assertions that follow the context lookup for an address pass: the stream
  allocator and the packet factory chosen for the address are not null, and the factory
  declares as many packet types as the transport's own.
\<close>

definition context_ok ::
  "('em, 'cm) Environment \<Rightarrow> ('em, 'cm) BaseTransport \<Rightarrow> Address \<Rightarrow> bool" where
  "context_ok env t address =
     (case GetContext env (m_contextManager t) address of
        None \<Rightarrow> m_streamAllocator t \<noteq> None
      | Some c \<Rightarrow>
          context_streamAllocator c \<noteq> None \<and>
          (case (context_packetFactory c, m_packetFactory t) of
             (Some packetFactory, Some primaryFactory) \<Rightarrow>
               GetNumPacketTypes packetFactory = GetNumPacketTypes primaryFactory
           | _ \<Rightarrow> False))"

text \<open>The value of a counter in the transport a call returns.\<close>

definition counter_after ::
  "('em, 'cm) BaseTransport option \<Rightarrow> TransportCounter \<Rightarrow> 64 word option" where
  "counter_after result index = map_option (\<lambda>t. GetCounter t index) result"

subsection \<open>A concrete transport\<close>

text \<open>
  An environment in which the managers are association lists, a write produces two
  bytes (whether the packet is encrypted, and its type) unless it is asked to encrypt
  without a key, and a read decodes these two bytes. \<open>example_fresh\<close> is the transport
  the constructor builds with queues of capacity 2, \<open>example_transport\<close> the same with a
  factory of three packet types attached, \<open>example_encrypting\<close> the same after
  \<open>EnablePacketEncryption\<close>.
\<close>

definition example_env ::
  "((Address \<times> Key \<times> Key) list, (Address \<times> Context) list) Environment" where
  "example_env =
     \<lparr>YOJIMBO_INSECURE_CONNECT = True,
      TRANSPORT_FLAG_INSECURE_MODE = 1,
      EncryptionManager_new = [],
      ContextManager_new = [],
      GetSendKey = (\<lambda>mappings address time.
        (map_option fst (map_of mappings address), mappings)),
      GetReceiveKey = (\<lambda>mappings address time.
        (map_option snd (map_of mappings address), mappings)),
      GetContext = (\<lambda>mappings address. map_of mappings address),
      WritePacket = (\<lambda>contextData p sequence encrypt key streamAllocator packetFactory.
        if encrypt \<and> key = None then Inl PACKET_PROCESSOR_ERROR_KEY_IS_NULL
        else Inr [if encrypt then 1 else 0, word_of_int (GetType p)]),
      ReadPacket = (\<lambda>contextData packetData key encryptedPacketTypes unencryptedPacketTypes
          streamAllocator packetFactory.
        case packetData of
          encrypted # type # _ \<Rightarrow>
            if encrypted \<noteq> 0 \<and> key = None then Inl PACKET_PROCESSOR_ERROR_KEY_IS_NULL
            else Inr (\<lparr>GetType = uint type, IsValid = True, packet_ident = 0\<rparr>, 0,
                      encrypted \<noteq> 0)
        | _ \<Rightarrow> Inl PACKET_PROCESSOR_ERROR_PACKET_TOO_SMALL)\<rparr>"

definition example_factory :: PacketFactory where
  "example_factory = \<lparr>GetNumPacketTypes = 3, factory_ident = 0\<rparr>"

definition example_packet :: Packet where
  "example_packet = \<lparr>GetType = 1, IsValid = True, packet_ident = 7\<rparr>"

definition example_fresh ::
  "((Address \<times> Key \<times> Key) list, (Address \<times> Context) list) BaseTransport" where
  "example_fresh =
     \<lparr>m_address = Address_Endpoint 1, m_time = 0, m_flags = 0, m_context = None,
      m_allocator = Some 0, m_streamAllocator = Some 0, m_protocolId = 1,
      m_packetFactory = None,
      m_packetProcessor = Some \<lparr>processor_maxPacketSize = 1200, processor_context = None,
        processor_calls = []\<rparr>,
      m_counters = (\<lambda>c. 0), m_allPacketTypes = None, m_packetTypeIsEncrypted = None,
      m_packetTypeIsUnencrypted = None, m_contextManager = [], m_encryptionManager = [],
      m_sendQueue = \<lparr>queue_entries = [], queue_size = 2\<rparr>,
      m_receiveQueue = \<lparr>queue_entries = [], queue_size = 2\<rparr>,
      destroyed = [], io_sent = [], io_pending = []\<rparr>"

definition example_transport ::
  "((Address \<times> Key \<times> Key) list, (Address \<times> Context) list) BaseTransport" where
  "example_transport =
     example_fresh\<lparr>m_packetFactory := Some example_factory,
       m_allPacketTypes := Some [1, 1, 1],
       m_packetTypeIsEncrypted := Some [0, 0, 0],
       m_packetTypeIsUnencrypted := Some [1, 1, 1]\<rparr>"

definition example_entry :: "nat \<Rightarrow> PacketEntry" where
  "example_entry n =
     \<lparr>entry_sequence = of_nat n, entry_address = Address_Endpoint 2,
      entry_packet = Some \<lparr>GetType = 1, IsValid = True, packet_ident = n\<rparr>\<rparr>"

definition example_encrypting ::
  "((Address \<times> Key \<times> Key) list, (Address \<times> Context) list) BaseTransport" where
  "example_encrypting =
     example_transport\<lparr>m_packetTypeIsEncrypted := Some [1, 1, 1],
       m_packetTypeIsUnencrypted := Some [0, 0, 0]\<rparr>"

definition example_full ::
  "((Address \<times> Key \<times> Key) list, (Address \<times> Context) list) BaseTransport" where
  "example_full =
     example_transport\<lparr>m_sendQueue :=
       \<lparr>queue_entries = [example_entry 1, example_entry 2], queue_size = 2\<rparr>\<rparr>"

definition example_three_pending ::
  "((Address \<times> Key \<times> Key) list, (Address \<times> Context) list) BaseTransport" where
  "example_three_pending =
     example_transport\<lparr>io_pending :=
       [(Address_Endpoint 2, [0, 1]), (Address_Endpoint 2, [0, 2]), (Address_Endpoint 3, [0, 0])]\<rparr>"

definition example_insecure_pending ::
  "((Address \<times> Key \<times> Key) list, (Address \<times> Context) list) BaseTransport" where
  "example_insecure_pending =
     example_encrypting\<lparr>m_flags := 1, io_pending := [(Address_Endpoint 2, [0, 1])]\<rparr>"

section \<open>Properties\<close>

subsection \<open>Auxiliary facts\<close>

lemma assert_simps [simp]: "assert True = Some ()" "assert False = None"
  by (simp_all add: assert_def)

lemma assert_bind [simp]: "Option.bind (assert b) f = (if b then f () else None)"
  by (simp add: assert_def)

lemma example_fresh_constructed:
  "BaseTransport_new example_env 0 (Address_Endpoint 1) 1 1200 2 2 = Some example_fresh"
  by (simp add: BaseTransport_new_def example_fresh_def example_env_def Queue_new_def)

lemma example_transport_attached:
  "SetPacketFactory example_env example_fresh example_factory = Some example_transport"
  by (simp add: SetPacketFactory_def example_transport_def example_fresh_def example_env_def
      example_factory_def numeral_3_eq_3)

lemma example_encrypting_enabled:
  "EnablePacketEncryption example_transport = Some example_encrypting"
  by (simp add: EnablePacketEncryption_def example_encrypting_def example_transport_def
      example_fresh_def example_factory_def memset_def numeral_3_eq_3)

subsection \<open>The classification tables\<close>

lemma SetPacketFactory_run:
  assumes "m_packetFactory t = None" and "m_allocator t \<noteq> None"
    and "0 < GetNumPacketTypes packetFactory"
  shows "SetPacketFactory env t packetFactory =
     Some (t\<lparr>m_packetFactory := Some packetFactory,
             m_allPacketTypes :=
               (if YOJIMBO_INSECURE_CONNECT env
                then Some (replicate (nat (GetNumPacketTypes packetFactory)) 1)
                else m_allPacketTypes t),
             m_packetTypeIsEncrypted :=
               Some (replicate (nat (GetNumPacketTypes packetFactory)) 0),
             m_packetTypeIsUnencrypted :=
               Some (replicate (nat (GetNumPacketTypes packetFactory)) 1)\<rparr>)"
  using assms by (auto simp: SetPacketFactory_def Let_def)

text \<open>
  C6: immediately after \<open>SetPacketFactory\<close> has attached a factory that declares
  \<open>n > 0\<close> packet types to a transport without factory, \<open>IsEncryptedPacketType\<close> returns
  false for every type \<open>0 \<le> type < n\<close>: the table starts with every type unencrypted.
\<close>

theorem SetPacketFactory_encrypts_nothing:
  assumes "m_packetFactory t = None" and "m_allocator t \<noteq> None"
    and "0 < GetNumPacketTypes packetFactory"
    and "0 \<le> type" and "type < GetNumPacketTypes packetFactory"
  shows "\<exists>t'. SetPacketFactory env t packetFactory = Some t' \<and>
              IsEncryptedPacketType t' type = Some False"
  using assms(4,5)
  by (simp add: SetPacketFactory_run [OF assms(1,2,3)] IsEncryptedPacketType_def)

theorem SetPacketFactory_encrypts_nothing_witness:
  "\<exists>t'. SetPacketFactory example_env example_fresh example_factory = Some t' \<and>
        IsEncryptedPacketType t' 2 = Some False"
  using SetPacketFactory_encrypts_nothing [of example_fresh example_factory 2 example_env]
  by (simp add: example_fresh_def example_factory_def)

lemma list_all2_replicate_same:
  "list_all2 P (replicate n a) (replicate n b) = (n = 0 \<or> P a b)"
  by (induction n) auto

lemma SetPacketFactory_complementary:
  assumes "m_packetFactory t = None" and "m_allocator t \<noteq> None"
    and "0 < GetNumPacketTypes packetFactory"
  shows "\<exists>t'. SetPacketFactory env t packetFactory = Some t' \<and> classification_complementary t'"
  by (simp add: SetPacketFactory_run [OF assms] classification_complementary_def
      list_all2_replicate_same)

lemma complementary_tables:
  assumes "classification_complementary t"
  obtains packetFactory encrypted unencrypted where
    "m_packetFactory t = Some packetFactory"
    "m_packetTypeIsEncrypted t = Some encrypted"
    "m_packetTypeIsUnencrypted t = Some unencrypted"
    "length encrypted = nat (GetNumPacketTypes packetFactory)"
    "length unencrypted = nat (GetNumPacketTypes packetFactory)"
    "list_all2 (\<lambda>e u. (e \<noteq> 0) \<noteq> (u \<noteq> 0)) encrypted unencrypted"
proof -
  from assms obtain packetFactory where 1: "m_packetFactory t = Some packetFactory"
    by (cases "m_packetFactory t") (simp_all add: classification_complementary_def)
  from assms 1 obtain encrypted where 2: "m_packetTypeIsEncrypted t = Some encrypted"
    by (cases "m_packetTypeIsEncrypted t") (simp_all add: classification_complementary_def)
  from assms 1 2 obtain unencrypted where 3: "m_packetTypeIsUnencrypted t = Some unencrypted"
    by (cases "m_packetTypeIsUnencrypted t") (simp_all add: classification_complementary_def)
  from assms 1 2 3 that show thesis
    by (simp add: classification_complementary_def)
qed

lemma EnablePacketEncryption_complementary:
  assumes "classification_complementary t"
  shows "\<exists>t'. EnablePacketEncryption t = Some t' \<and> classification_complementary t'"
proof -
  from assms obtain packetFactory encrypted unencrypted where
    tables: "m_packetFactory t = Some packetFactory"
      "m_packetTypeIsEncrypted t = Some encrypted"
      "m_packetTypeIsUnencrypted t = Some unencrypted"
    and len: "length encrypted = nat (GetNumPacketTypes packetFactory)"
      "length unencrypted = nat (GetNumPacketTypes packetFactory)"
    by (rule complementary_tables)
  let ?n = "nat (GetNumPacketTypes packetFactory)"
  let ?t' = "t\<lparr>m_packetTypeIsEncrypted := Some (replicate ?n 1),
               m_packetTypeIsUnencrypted := Some (replicate ?n 0)\<rparr>"
  have run: "EnablePacketEncryption t = Some ?t'"
    using tables len by (simp add: EnablePacketEncryption_def memset_def)
  have "classification_complementary ?t'"
    using tables by (simp add: classification_complementary_def list_all2_replicate_same)
  with run show ?thesis by simp
qed

lemma DisableEncryptionForPacketType_complementary:
  assumes "classification_complementary t" and "m_packetFactory t = Some packetFactory"
    and "0 \<le> type" and "type < GetNumPacketTypes packetFactory"
  shows "\<exists>t'. DisableEncryptionForPacketType t type = Some t' \<and> classification_complementary t'"
proof -
  from assms(1,2) obtain encrypted unencrypted where
    tables: "m_packetTypeIsEncrypted t = Some encrypted"
      "m_packetTypeIsUnencrypted t = Some unencrypted"
    and len: "length encrypted = nat (GetNumPacketTypes packetFactory)"
      "length unencrypted = nat (GetNumPacketTypes packetFactory)"
    and compl: "list_all2 (\<lambda>e u. (e \<noteq> 0) \<noteq> (u \<noteq> 0)) encrypted unencrypted"
    by (auto elim: complementary_tables)
  let ?t' = "t\<lparr>m_packetTypeIsEncrypted := Some (encrypted[nat type := 0]),
               m_packetTypeIsUnencrypted := Some (unencrypted[nat type := 1])\<rparr>"
  from assms(3,4) len have idx: "nat type < length encrypted" "nat type < length unencrypted"
    by simp_all
  have run: "DisableEncryptionForPacketType t type = Some ?t'"
    using assms(2,3,4) tables idx by (simp add: DisableEncryptionForPacketType_def)
  have "list_all2 (\<lambda>e u. (e \<noteq> 0) \<noteq> (u \<noteq> 0)) (encrypted[nat type := 0])
          (unencrypted[nat type := 1])"
    using compl by (rule list_all2_update_cong) simp
  then have "classification_complementary ?t'"
    using assms(2) len by (simp add: classification_complementary_def)
  with run show ?thesis by simp
qed

lemma complementary_nth:
  assumes "classification_complementary t" and "m_packetFactory t = Some packetFactory"
    and "m_packetTypeIsEncrypted t = Some encrypted"
    and "m_packetTypeIsUnencrypted t = Some unencrypted"
    and "0 \<le> type" and "type < GetNumPacketTypes packetFactory"
  shows "(encrypted ! nat type \<noteq> 0) \<noteq> (unencrypted ! nat type \<noteq> 0)"
  using assms
  by (auto simp: classification_complementary_def list_all2_conv_all_nth)

lemma ReadPackets_body_tables:
  "ReadPackets_body env maxPacketSize t = Some (control, t') \<Longrightarrow>
   m_packetTypeIsEncrypted t' = m_packetTypeIsEncrypted t \<and>
   m_packetTypeIsUnencrypted t' = m_packetTypeIsUnencrypted t \<and>
   m_packetFactory t' = m_packetFactory t"
  unfolding ReadPackets_body_def Let_def
  by (auto simp: increment_def InternalReceivePacket_def
      split: Option.bind_splits prod.splits sum.splits PacketProcessorError.splits if_splits list.splits)

lemma ReadPackets_loop_tables:
  "ReadPackets_loop env maxPacketSize t = Some t' \<Longrightarrow>
   m_packetTypeIsEncrypted t' = m_packetTypeIsEncrypted t \<and>
   m_packetTypeIsUnencrypted t' = m_packetTypeIsUnencrypted t \<and>
   m_packetFactory t' = m_packetFactory t"
proof (induction env maxPacketSize t rule: ReadPackets_loop.induct)
  case (1 env maxPacketSize t)
  show ?case
  proof (cases "ReadPackets_body env maxPacketSize t")
    case None
    with "1.prems" show ?thesis by simp
  next
    case (Some r)
    obtain control t1 where r: "r = (control, t1)" by (cases r)
    note body = ReadPackets_body_tables [OF Some [unfolded r]]
    show ?thesis
    proof (cases control)
      case Break
      with "1.prems" Some r body show ?thesis by simp
    next
      case Continue
      with "1.prems" Some r have "ReadPackets_loop env maxPacketSize t1 = Some t'" by simp
      from "1.IH" [OF Some [unfolded r Continue] refl refl this] body show ?thesis
        by simp
    qed
  qed
qed

text \<open>
  C7: \<open>SetPacketFactory\<close> leaves the two classification tables complementary;
  \<open>EnablePacketEncryption\<close> and \<open>DisableEncryptionForPacketType\<close> keep them so;
  complementary tables have, for every valid packet type, exactly one of the two entries
  set; and \<open>ReadPackets\<close>, which in insecure mode hands the separate table
  \<open>m_allPacketTypes\<close> to the packet processor, returns with both tables as they were.
\<close>

theorem classification_stays_complementary:
  "(m_packetFactory t = None \<and> m_allocator t \<noteq> None \<and> 0 < GetNumPacketTypes packetFactory \<longrightarrow>
      (\<exists>t'. SetPacketFactory env t packetFactory = Some t' \<and> classification_complementary t')) \<and>
   (classification_complementary t \<longrightarrow>
      (\<exists>t'. EnablePacketEncryption t = Some t' \<and> classification_complementary t')) \<and>
   (classification_complementary t \<and> m_packetFactory t = Some attached \<and>
    0 \<le> type \<and> type < GetNumPacketTypes attached \<longrightarrow>
      (\<exists>t'. DisableEncryptionForPacketType t type = Some t' \<and> classification_complementary t')) \<and>
   (classification_complementary t \<and> m_packetFactory t = Some attached \<and>
    m_packetTypeIsEncrypted t = Some encrypted \<and>
    m_packetTypeIsUnencrypted t = Some unencrypted \<and>
    0 \<le> type \<and> type < GetNumPacketTypes attached \<longrightarrow>
      (encrypted ! nat type \<noteq> 0) \<noteq> (unencrypted ! nat type \<noteq> 0)) \<and>
   (ReadPackets env t = Some read \<longrightarrow>
      m_packetTypeIsEncrypted read = m_packetTypeIsEncrypted t \<and>
      m_packetTypeIsUnencrypted read = m_packetTypeIsUnencrypted t)"
proof (intro conjI impI)
  assume "m_packetFactory t = None \<and> m_allocator t \<noteq> None \<and> 0 < GetNumPacketTypes packetFactory"
  then show "\<exists>t'. SetPacketFactory env t packetFactory = Some t' \<and> classification_complementary t'"
    by (intro SetPacketFactory_complementary) simp_all
next
  assume "classification_complementary t"
  then show "\<exists>t'. EnablePacketEncryption t = Some t' \<and> classification_complementary t'"
    by (rule EnablePacketEncryption_complementary)
next
  assume "classification_complementary t \<and> m_packetFactory t = Some attached \<and>
    0 \<le> type \<and> type < GetNumPacketTypes attached"
  then show "\<exists>t'. DisableEncryptionForPacketType t type = Some t' \<and>
      classification_complementary t'"
    by (intro DisableEncryptionForPacketType_complementary [where packetFactory = attached])
      simp_all
next
  assume "classification_complementary t \<and> m_packetFactory t = Some attached \<and>
    m_packetTypeIsEncrypted t = Some encrypted \<and>
    m_packetTypeIsUnencrypted t = Some unencrypted \<and>
    0 \<le> type \<and> type < GetNumPacketTypes attached"
  then show "(encrypted ! nat type \<noteq> 0) \<noteq> (unencrypted ! nat type \<noteq> 0)"
    by (intro complementary_nth [where t = t and packetFactory = attached]) simp_all
next
  assume r: "ReadPackets env t = Some read"
  show "m_packetTypeIsEncrypted read = m_packetTypeIsEncrypted t"
    "m_packetTypeIsUnencrypted read = m_packetTypeIsUnencrypted t"
    using r ReadPackets_loop_tables [of env _ t read]
    by (auto simp: ReadPackets_def split: if_splits Option.bind_splits)
qed

theorem classification_stays_complementary_witness:
  "(\<exists>t'. SetPacketFactory example_env example_fresh example_factory = Some t' \<and>
         classification_complementary t') \<and>
   (\<exists>t'. EnablePacketEncryption example_transport = Some t' \<and>
         classification_complementary t') \<and>
   (\<exists>t'. DisableEncryptionForPacketType example_encrypting 1 = Some t' \<and>
         classification_complementary t') \<and>
   (the (m_packetTypeIsEncrypted example_encrypting) ! 1 \<noteq> 0) \<noteq>
     (the (m_packetTypeIsUnencrypted example_encrypting) ! 1 \<noteq> 0) \<and>
   map_option m_packetTypeIsEncrypted (ReadPackets example_env example_insecure_pending) =
     Some (Some [1, 1, 1]) \<and>
   map_option m_packetTypeIsUnencrypted (ReadPackets example_env example_insecure_pending) =
     Some (Some [0, 0, 0])"
proof -
  have fresh: "m_packetFactory example_fresh = None \<and> m_allocator example_fresh \<noteq> None \<and>
      0 < GetNumPacketTypes example_factory"
    by (simp add: example_fresh_def example_factory_def)
  have plain: "classification_complementary example_transport"
    by (simp add: classification_complementary_def example_transport_def example_fresh_def
        example_factory_def)
  have encrypting: "classification_complementary example_encrypting \<and>
      m_packetFactory example_encrypting = Some example_factory \<and>
      m_packetTypeIsEncrypted example_encrypting = Some [1, 1, 1] \<and>
      m_packetTypeIsUnencrypted example_encrypting = Some [0, 0, 0] \<and>
      (0::int) \<le> 1 \<and> 1 < GetNumPacketTypes example_factory"
    by (simp add: classification_complementary_def example_encrypting_def
        example_transport_def example_fresh_def example_factory_def)
  have "\<exists>r. ReadPackets example_env example_insecure_pending = Some r"
    by (simp add: ReadPackets_def GetMaxPacketSize_def ReadPackets_body_def
      InternalReceivePacket_def Let_def example_insecure_pending_def example_encrypting_def
      example_transport_def example_fresh_def example_env_def example_factory_def
      GetTime_def GetFlags_def increment_def Queue_IsFull_def Queue_Push_def)
  then obtain r where r: "ReadPackets example_env example_insecure_pending = Some r"
    by (elim exE)
  note thm1 = classification_stays_complementary [where env = example_env
      and t = example_fresh and packetFactory = example_factory and attached = example_factory
      and type = 1 and encrypted = "[]" and unencrypted = "[]" and read = r]
  note thm2 = classification_stays_complementary [where env = example_env
      and t = example_transport and packetFactory = example_factory
      and attached = example_factory and type = 1 and encrypted = "[]" and unencrypted = "[]"
      and read = r]
  note thm3 = classification_stays_complementary [where env = example_env
      and t = example_encrypting and packetFactory = example_factory
      and attached = example_factory and type = 1
      and encrypted = "[1, 1, 1]" and unencrypted = "[0, 0, 0]" and read = r]
  note thm4 = classification_stays_complementary [where env = example_env
      and t = example_insecure_pending and packetFactory = example_factory
      and attached = example_factory and type = 1 and encrypted = "[]" and unencrypted = "[]"
      and read = r]
  from thm1 fresh have 1: "\<exists>t'. SetPacketFactory example_env example_fresh example_factory =
      Some t' \<and> classification_complementary t'"
    by simp
  from thm2 plain have 2: "\<exists>t'. EnablePacketEncryption example_transport = Some t' \<and>
      classification_complementary t'"
    by simp
  from thm3 encrypting have 3: "\<exists>t'. DisableEncryptionForPacketType example_encrypting 1 =
      Some t' \<and> classification_complementary t'"
    and 4: "(([1, 1, 1] :: 8 word list) ! nat 1 \<noteq> 0) \<noteq>
      (([0, 0, 0] :: 8 word list) ! nat 1 \<noteq> 0)"
    by simp_all
  from thm4 r have 5: "m_packetTypeIsEncrypted r =
        m_packetTypeIsEncrypted example_insecure_pending"
      "m_packetTypeIsUnencrypted r = m_packetTypeIsUnencrypted example_insecure_pending"
    by simp_all
  have tables: "m_packetTypeIsEncrypted example_insecure_pending = Some [1, 1, 1]"
    "m_packetTypeIsUnencrypted example_insecure_pending = Some [0, 0, 0]"
    by (simp_all add: example_insecure_pending_def example_encrypting_def)
  from 1 2 3 4 5 show ?thesis
    using encrypting by (simp add: r tables)
qed

subsection \<open>Queued sending and receiving\<close>

text \<open>
  C4: a call of \<open>SendPacket\<close> that is not immediate, with a valid packet and address,
  made while the send queue is full, returns; it destroys the packet and adds one to the
  send-queue-overflow counter, and changes nothing else: the send queue keeps its entries
  and no other counter moves.
\<close>

theorem SendPacket_queue_full:
  assumes "m_allocator t \<noteq> None" and "m_packetFactory t \<noteq> None"
    and "IsValid p" and "Address_IsValid address"
    and "Queue_IsFull (m_sendQueue t)"
  shows "SendPacket env t address (Some p) sequence False =
     Some (t\<lparr>m_counters := (m_counters t)
                (TRANSPORT_COUNTER_SEND_QUEUE_OVERFLOW :=
                   m_counters t TRANSPORT_COUNTER_SEND_QUEUE_OVERFLOW + 1),
             destroyed := destroyed t @ [p]\<rparr>)"
  using assms by (simp add: SendPacket_def increment_def Packet_Destroy_def)

theorem SendPacket_queue_full_witness:
  "SendPacket example_env
     (example_transport\<lparr>m_sendQueue := \<lparr>queue_entries = [example_entry 1, example_entry 2],
        queue_size = 2\<rparr>\<rparr>)
     (Address_Endpoint 2) (Some example_packet) 3 False =
   Some (example_transport
     \<lparr>m_sendQueue := \<lparr>queue_entries = [example_entry 1, example_entry 2], queue_size = 2\<rparr>,
      m_counters := (\<lambda>c. 0)(TRANSPORT_COUNTER_SEND_QUEUE_OVERFLOW := 1),
      destroyed := [example_packet]\<rparr>)"
  using SendPacket_queue_full [of
      "example_transport\<lparr>m_sendQueue := \<lparr>queue_entries = [example_entry 1, example_entry 2],
        queue_size = 2\<rparr>\<rparr>" example_packet "Address_Endpoint 2" example_env 3]
  by (simp add: example_transport_def example_fresh_def example_packet_def Queue_IsFull_def
      Address_IsValid_def)

text \<open>
  C9: on an empty receive queue \<open>ReceivePacket\<close> returns no packet and leaves the
  transport, \<open>from\<close> and \<open>sequence\<close> as they were. On a queue that is not empty (the
  transport has its factory, and the oldest entry holds a valid packet and address, as
  entries of the queue do) it removes the oldest entry and returns its packet, writes its
  address to \<open>from\<close> and, when \<open>sequence\<close> is not null, its sequence number there, and
  adds exactly one to the packets-received counter.
\<close>

theorem ReceivePacket_pops_oldest:
  assumes "m_allocator t \<noteq> None"
  shows "(Queue_IsEmpty (m_receiveQueue t) \<longrightarrow>
            ReceivePacket t from' sequence = Some (None, from', sequence, t)) \<and>
         (m_packetFactory t \<noteq> None \<and> queue_entries (m_receiveQueue t) = entry # rest \<and>
          entry_packet entry = Some p \<and> IsValid p \<and> Address_IsValid (entry_address entry) \<longrightarrow>
            ReceivePacket t from' sequence =
              Some (Some p, entry_address entry,
                    (case sequence of None \<Rightarrow> None | Some _ \<Rightarrow> Some (entry_sequence entry)),
                    t\<lparr>m_receiveQueue := (m_receiveQueue t)\<lparr>queue_entries := rest\<rparr>,
                      m_counters := (m_counters t)
                        (TRANSPORT_COUNTER_PACKETS_RECEIVED :=
                           m_counters t TRANSPORT_COUNTER_PACKETS_RECEIVED + 1)\<rparr>))"
  using assms
  by (simp add: ReceivePacket_def Queue_IsEmpty_def Queue_Pop_def increment_def)

theorem ReceivePacket_pops_oldest_witness:
  "ReceivePacket example_transport Address_Default (Some 0) =
     Some (None, Address_Default, Some 0, example_transport) \<and>
   ReceivePacket
     (example_transport\<lparr>m_receiveQueue := \<lparr>queue_entries = [example_entry 1, example_entry 2],
        queue_size = 2\<rparr>\<rparr>) Address_Default (Some 0) =
     Some (Some \<lparr>GetType = 1, IsValid = True, packet_ident = 1\<rparr>, Address_Endpoint 2, Some 1,
       example_transport\<lparr>m_receiveQueue := \<lparr>queue_entries = [example_entry 2], queue_size = 2\<rparr>,
         m_counters := (\<lambda>c. 0)(TRANSPORT_COUNTER_PACKETS_RECEIVED := 1)\<rparr>)"
  using ReceivePacket_pops_oldest [where t = example_transport and from' = Address_Default
      and sequence = "Some 0"]
    ReceivePacket_pops_oldest [where t =
      "example_transport\<lparr>m_receiveQueue := \<lparr>queue_entries = [example_entry 1, example_entry 2],
        queue_size = 2\<rparr>\<rparr>" and entry = "example_entry 1" and rest = "[example_entry 2]"
      and p = "\<lparr>GetType = 1, IsValid = True, packet_ident = 1\<rparr>" and from' = Address_Default
      and sequence = "Some 0"]
  by (simp add: example_transport_def example_fresh_def example_entry_def Queue_IsEmpty_def
      Address_IsValid_def)

text \<open>
  C10: without a packet factory \<open>ReceivePacket\<close> returns no packet, also when the
  receive queue holds entries, and \<open>WritePackets\<close> and \<open>ReadPackets\<close> return at once;
  the transport (queues, managers, counters, raw I/O) is the same afterwards.
\<close>

theorem no_factory_no_op:
  assumes "m_packetFactory t = None"
  shows "ReceivePacket t from' sequence = Some (None, from', sequence, t) \<and>
         WritePackets env t = Some t \<and>
         ReadPackets env t = Some t"
  using assms by (simp add: ReceivePacket_def WritePackets_def ReadPackets_def)

theorem no_factory_no_op_witness:
  "ReceivePacket
     (example_fresh\<lparr>m_receiveQueue := \<lparr>queue_entries = [example_entry 1], queue_size = 2\<rparr>,
        m_sendQueue := \<lparr>queue_entries = [example_entry 2], queue_size = 2\<rparr>,
        io_pending := [(Address_Endpoint 2, [0, 1])]\<rparr>) Address_Default None =
     Some (None, Address_Default, None,
       example_fresh\<lparr>m_receiveQueue := \<lparr>queue_entries = [example_entry 1], queue_size = 2\<rparr>,
        m_sendQueue := \<lparr>queue_entries = [example_entry 2], queue_size = 2\<rparr>,
        io_pending := [(Address_Endpoint 2, [0, 1])]\<rparr>) \<and>
   WritePackets example_env
     (example_fresh\<lparr>m_receiveQueue := \<lparr>queue_entries = [example_entry 1], queue_size = 2\<rparr>,
        m_sendQueue := \<lparr>queue_entries = [example_entry 2], queue_size = 2\<rparr>,
        io_pending := [(Address_Endpoint 2, [0, 1])]\<rparr>) =
     Some (example_fresh\<lparr>m_receiveQueue := \<lparr>queue_entries = [example_entry 1], queue_size = 2\<rparr>,
        m_sendQueue := \<lparr>queue_entries = [example_entry 2], queue_size = 2\<rparr>,
        io_pending := [(Address_Endpoint 2, [0, 1])]\<rparr>) \<and>
   ReadPackets example_env
     (example_fresh\<lparr>m_receiveQueue := \<lparr>queue_entries = [example_entry 1], queue_size = 2\<rparr>,
        m_sendQueue := \<lparr>queue_entries = [example_entry 2], queue_size = 2\<rparr>,
        io_pending := [(Address_Endpoint 2, [0, 1])]\<rparr>) =
     Some (example_fresh\<lparr>m_receiveQueue := \<lparr>queue_entries = [example_entry 1], queue_size = 2\<rparr>,
        m_sendQueue := \<lparr>queue_entries = [example_entry 2], queue_size = 2\<rparr>,
        io_pending := [(Address_Endpoint 2, [0, 1])]\<rparr>)"
  using no_factory_no_op [of
      "example_fresh\<lparr>m_receiveQueue := \<lparr>queue_entries = [example_entry 1], queue_size = 2\<rparr>,
        m_sendQueue := \<lparr>queue_entries = [example_entry 2], queue_size = 2\<rparr>,
        io_pending := [(Address_Endpoint 2, [0, 1])]\<rparr>" Address_Default None example_env]
  by (simp add: example_fresh_def)

subsection \<open>The write step\<close>

text \<open>
  \<open>WriteAndFlushPacket\<close> up to the call of the packet processor: when the assertions pass,
  the result is decided by what \<open>WritePacket\<close> returns for the arguments resolved here.
\<close>

lemma IsEncryptedPacketType_frame [simp]:
  "IsEncryptedPacketType (t\<lparr>m_encryptionManager := em\<rparr>) type = IsEncryptedPacketType t type"
  "IsEncryptedPacketType (t\<lparr>m_counters := cs\<rparr>) type = IsEncryptedPacketType t type"
  by (simp_all add: IsEncryptedPacketType_def)

lemma IsEncryptedPacketType_SomeD:
  assumes "IsEncryptedPacketType t type = Some b"
  obtains packetFactory where "m_packetFactory t = Some packetFactory"
    "0 \<le> type" "type < GetNumPacketTypes packetFactory"
  using assms
  by (auto simp: IsEncryptedPacketType_def split: Option.bind_splits if_splits)

lemma context_ok_resolve:
  assumes "context_ok env t address" and "m_packetFactory t = Some primaryFactory"
  obtains streamAllocator packetFactory where
    "(case GetContext env (m_contextManager t) address of
        Some c \<Rightarrow> context_streamAllocator c | None \<Rightarrow> m_streamAllocator t) = Some streamAllocator"
    "(case GetContext env (m_contextManager t) address of
        Some c \<Rightarrow> context_packetFactory c | None \<Rightarrow> m_packetFactory t) = Some packetFactory"
    "GetNumPacketTypes packetFactory = GetNumPacketTypes primaryFactory"
  using assms
  by (auto simp: context_ok_def split: option.splits)

lemma WriteAndFlushPacket_run:
  assumes cls: "IsEncryptedPacketType t (GetType p) = Some isEncrypted"
    and valid: "IsValid p" "Address_IsValid address"
    and key: "GetSendKey env (m_encryptionManager t) address (GetTime t) =
              (key, encryptionManager)"
    and lookup: "GetContext env (m_contextManager t) address = ctx"
    and alloc: "(case ctx of Some c \<Rightarrow> context_streamAllocator c
                 | None \<Rightarrow> m_streamAllocator t) = Some streamAllocator"
    and fac: "(case ctx of Some c \<Rightarrow> context_packetFactory c
               | None \<Rightarrow> m_packetFactory t) = Some packetFactory"
    and prim: "m_packetFactory t = Some primaryFactory"
    and num: "GetNumPacketTypes packetFactory = GetNumPacketTypes primaryFactory"
    and proc: "m_packetProcessor t = Some processor"
    and cd: "(case ctx of Some c \<Rightarrow> context_contextData c | None \<Rightarrow> m_context t) =
             contextData"
    and enc: "encrypt = (isEncrypted \<and> (insecure_mode env t \<longrightarrow> key \<noteq> None))"
    and called: "called = t\<lparr>m_encryptionManager := encryptionManager,
                     m_packetProcessor := Some (processor
                       \<lparr>processor_context := contextData,
                        processor_calls := processor_calls processor @
                          [WritePacketCall p sequence encrypt key streamAllocator
                             packetFactory]\<rparr>)\<rparr>"
  shows "WriteAndFlushPacket env t address (Some p) sequence =
     (case WritePacket env contextData p sequence encrypt key streamAllocator packetFactory of
        Inl error \<Rightarrow>
          (case error of
             PACKET_PROCESSOR_ERROR_KEY_IS_NULL \<Rightarrow>
               Some (increment TRANSPORT_COUNTER_ENCRYPTION_MAPPING_FAILURES called)
           | PACKET_PROCESSOR_ERROR_ENCRYPT_FAILED \<Rightarrow>
               Some (increment TRANSPORT_COUNTER_ENCRYPT_PACKET_FAILURES called)
           | PACKET_PROCESSOR_ERROR_WRITE_PACKET_FAILED \<Rightarrow>
               Some (increment TRANSPORT_COUNTER_WRITE_PACKET_FAILURES called)
           | _ \<Rightarrow> Some called)
      | Inr packetData \<Rightarrow>
          (if encrypt
           then Some (increment TRANSPORT_COUNTER_ENCRYPTED_PACKETS_WRITTEN
                  (increment TRANSPORT_COUNTER_PACKETS_WRITTEN
                     (InternalSendPacket called address packetData)))
           else Some (increment TRANSPORT_COUNTER_UNENCRYPTED_PACKETS_WRITTEN
                  (increment TRANSPORT_COUNTER_PACKETS_WRITTEN
                     (InternalSendPacket called address packetData)))))"
proof -
  from cls obtain f where f: "m_packetFactory t = Some f" "0 \<le> GetType p"
    "GetType p < GetNumPacketTypes f"
    by (rule IsEncryptedPacketType_SomeD)
  with prim have range: "0 \<le> GetType p" "GetType p < GetNumPacketTypes primaryFactory"
    by simp_all
  show ?thesis
  proof (cases "insecure_mode env t")
    case True
    then have "YOJIMBO_INSECURE_CONNECT env"
      "m_flags t AND TRANSPORT_FLAG_INSECURE_MODE env \<noteq> 0"
      by (simp_all add: insecure_mode_def GetFlags_def)
    moreover from True enc have "encrypt = (isEncrypted \<and> key \<noteq> None)" by simp
    ultimately show ?thesis
      using cls valid key lookup alloc fac prim num proc range cd
      by (simp add: WriteAndFlushPacket_def Let_def GetFlags_def called
          cong: option.case_cong sum.case_cong PacketProcessorError.case_cong if_cong)
  next
    case False
    then have "\<not> YOJIMBO_INSECURE_CONNECT env \<or>
      m_flags t AND TRANSPORT_FLAG_INSECURE_MODE env = 0"
      by (simp add: insecure_mode_def GetFlags_def)
    moreover from False enc have "encrypt = isEncrypted" by simp
    ultimately show ?thesis
      using cls valid key lookup alloc fac prim num proc range cd
      by (auto simp add: WriteAndFlushPacket_def Let_def GetFlags_def called
          cong: option.case_cong sum.case_cong PacketProcessorError.case_cong if_cong)
  qed
qed

lemma context_ok_frame [simp]:
  "context_ok env (t\<lparr>m_counters := cs\<rparr>) address = context_ok env t address"
  "context_ok env (t\<lparr>m_sendQueue := q\<rparr>) address = context_ok env t address"
  "context_ok env (t\<lparr>m_receiveQueue := q\<rparr>) address = context_ok env t address"
  "context_ok env (t\<lparr>m_encryptionManager := em\<rparr>) address = context_ok env t address"
  "context_ok env (t\<lparr>m_packetProcessor := pp\<rparr>) address = context_ok env t address"
  "context_ok env (t\<lparr>io_pending := pending\<rparr>) address = context_ok env t address"
  by (simp_all add: context_ok_def cong: option.case_cong)

lemma insecure_mode_frame [simp]:
  "insecure_mode env (t\<lparr>m_counters := cs\<rparr>) = insecure_mode env t"
  "insecure_mode env (t\<lparr>m_sendQueue := q\<rparr>) = insecure_mode env t"
  by (simp_all add: insecure_mode_def GetFlags_def)

lemma IsEncryptedPacketType_frame2 [simp]:
  "IsEncryptedPacketType (t\<lparr>m_sendQueue := q\<rparr>) type = IsEncryptedPacketType t type"
  by (simp_all add: IsEncryptedPacketType_def)

lemma GetTime_frame [simp]:
  "GetTime (t\<lparr>m_counters := cs\<rparr>) = GetTime t"
  "GetTime (t\<lparr>m_sendQueue := q\<rparr>) = GetTime t"
  by (simp_all add: GetTime_def)

text \<open>
  C5: whenever \<open>WriteAndFlushPacket\<close> writes a packet (its assertions pass), it calls
  the packet processor once, and the encrypt flag of that call is true if and only if the
  packet's type is classified as encrypted and, in case insecure mode is engaged, the
  encryption manager returned a send key for the address. With insecure mode off the
  implication is void and the flag is the classification of the type.
\<close>

theorem WriteAndFlushPacket_encrypt_flag:
  assumes cls: "IsEncryptedPacketType t (GetType p) = Some isEncrypted"
    and valid: "IsValid p" "Address_IsValid address"
    and ok: "context_ok env t address"
    and proc: "m_packetProcessor t = Some processor"
    and key: "GetSendKey env (m_encryptionManager t) address (GetTime t) =
              (key, encryptionManager)"
  shows "\<exists>t' processor' streamAllocator packetFactory.
      WriteAndFlushPacket env t address (Some p) sequence = Some t' \<and>
      m_packetProcessor t' = Some processor' \<and>
      processor_calls processor' = processor_calls processor @
        [WritePacketCall p sequence
           (isEncrypted \<and> (insecure_mode env t \<longrightarrow> key \<noteq> None))
           key streamAllocator packetFactory]"
proof -
  from cls obtain primaryFactory where prim: "m_packetFactory t = Some primaryFactory"
    by (rule IsEncryptedPacketType_SomeD)
  from ok prim obtain streamAllocator packetFactory where
    res: "(case GetContext env (m_contextManager t) address of
        Some c \<Rightarrow> context_streamAllocator c | None \<Rightarrow> m_streamAllocator t) = Some streamAllocator"
    "(case GetContext env (m_contextManager t) address of
        Some c \<Rightarrow> context_packetFactory c | None \<Rightarrow> m_packetFactory t) = Some packetFactory"
    "GetNumPacketTypes packetFactory = GetNumPacketTypes primaryFactory"
    by (rule context_ok_resolve)
  let ?encrypt = "isEncrypted \<and> (insecure_mode env t \<longrightarrow> key \<noteq> None)"
  let ?processor' = "processor
        \<lparr>processor_context :=
           (case GetContext env (m_contextManager t) address of
              Some c \<Rightarrow> context_contextData c | None \<Rightarrow> m_context t),
         processor_calls := processor_calls processor @
           [WritePacketCall p sequence ?encrypt key streamAllocator packetFactory]\<rparr>"
  note run = WriteAndFlushPacket_run [OF cls valid key refl res(1,2) prim res(3) proc refl refl refl,
      of sequence]
  have "\<exists>t'. WriteAndFlushPacket env t address (Some p) sequence = Some t' \<and>
      m_packetProcessor t' = Some ?processor'"
    unfolding run
    by (simp add: increment_def InternalSendPacket_def
        split: sum.splits PacketProcessorError.splits)
  then obtain t' where t': "WriteAndFlushPacket env t address (Some p) sequence = Some t'"
    "m_packetProcessor t' = Some ?processor'"
    by (elim exE conjE)
  show ?thesis
    by (rule exI [of _ t'], rule exI [of _ ?processor'], rule exI [of _ streamAllocator],
        rule exI [of _ packetFactory]) (simp add: t')
qed

theorem WriteAndFlushPacket_encrypt_flag_witness:
  "\<exists>t' processor' streamAllocator packetFactory.
      WriteAndFlushPacket example_env (example_encrypting\<lparr>m_flags := 1\<rparr>) (Address_Endpoint 2)
        (Some example_packet) 5 = Some t' \<and>
      m_packetProcessor t' = Some processor' \<and>
      processor_calls processor' =
        [WritePacketCall example_packet 5 False None streamAllocator packetFactory]"
  using WriteAndFlushPacket_encrypt_flag [where env = example_env
      and t = "example_encrypting\<lparr>m_flags := 1\<rparr>" and p = example_packet
      and address = "Address_Endpoint 2" and sequence = 5 and isEncrypted = True
      and key = None and encryptionManager = "[]"
      and processor = "\<lparr>processor_maxPacketSize = 1200, processor_context = None,
        processor_calls = []\<rparr>"]
  by (simp add: example_encrypting_def example_transport_def example_fresh_def example_env_def
      example_factory_def example_packet_def IsEncryptedPacketType_def insecure_mode_def
      context_ok_def GetFlags_def GetTime_def Address_IsValid_def)

lemma increment_frame [simp]:
  "m_counters (increment c t) = (m_counters t)(c := m_counters t c + 1)"
  "m_packetFactory (increment c t) = m_packetFactory t"
  "m_allocator (increment c t) = m_allocator t"
  "m_packetProcessor (increment c t) = m_packetProcessor t"
  "m_encryptionManager (increment c t) = m_encryptionManager t"
  "m_contextManager (increment c t) = m_contextManager t"
  "m_sendQueue (increment c t) = m_sendQueue t"
  "m_receiveQueue (increment c t) = m_receiveQueue t"
  "io_sent (increment c t) = io_sent t"
  "io_pending (increment c t) = io_pending t"
  "destroyed (increment c t) = destroyed t"
  "IsEncryptedPacketType (increment c t) type = IsEncryptedPacketType t type"
  "context_ok env (increment c t) address = context_ok env t address"
  "insecure_mode env (increment c t) = insecure_mode env t"
  "GetTime (increment c t) = GetTime t"
  by (simp_all add: increment_def)

lemma WriteAndFlushPacket_counters:
  assumes cls: "IsEncryptedPacketType t (GetType p) = Some isEncrypted"
    and valid: "IsValid p" "Address_IsValid address"
    and ok: "context_ok env t address"
    and proc: "m_packetProcessor t = Some processor"
  shows "\<exists>t2 t2'. WriteAndFlushPacket env t address (Some p) sequence = Some t2 \<and>
      WriteAndFlushPacket env (increment c t) address (Some p) sequence = Some t2' \<and>
      m_counters t2' = (m_counters t2)(c := m_counters t2 c + 1)"
proof -
  from cls obtain primaryFactory where prim: "m_packetFactory t = Some primaryFactory"
    by (rule IsEncryptedPacketType_SomeD)
  from ok prim obtain streamAllocator packetFactory where
    res: "(case GetContext env (m_contextManager t) address of
        Some c \<Rightarrow> context_streamAllocator c | None \<Rightarrow> m_streamAllocator t) = Some streamAllocator"
    "(case GetContext env (m_contextManager t) address of
        Some c \<Rightarrow> context_packetFactory c | None \<Rightarrow> m_packetFactory t) = Some packetFactory"
    "GetNumPacketTypes packetFactory = GetNumPacketTypes primaryFactory"
    by (rule context_ok_resolve)
  obtain key encryptionManager where
    key: "GetSendKey env (m_encryptionManager t) address (GetTime t) = (key, encryptionManager)"
    by (cases "GetSendKey env (m_encryptionManager t) address (GetTime t)")
  note run = WriteAndFlushPacket_run [OF cls valid key refl res(1,2) prim res(3) proc refl refl refl,
      of sequence]
  have cls': "IsEncryptedPacketType (increment c t) (GetType p) = Some isEncrypted"
    using cls by simp
  have key': "GetSendKey env (m_encryptionManager (increment c t)) address
      (GetTime (increment c t)) = (key, encryptionManager)"
    using key by simp
  have ctx': "GetContext env (m_contextManager (increment c t)) address =
      GetContext env (m_contextManager t) address"
    by simp
  have res': "(case GetContext env (m_contextManager t) address of
        Some c \<Rightarrow> context_streamAllocator c | None \<Rightarrow> m_streamAllocator (increment c t)) =
        Some streamAllocator"
    "(case GetContext env (m_contextManager t) address of
        Some c \<Rightarrow> context_packetFactory c | None \<Rightarrow> m_packetFactory (increment c t)) =
        Some packetFactory"
    using res(1,2) by (simp_all add: increment_def cong: option.case_cong)
  have prim': "m_packetFactory (increment c t) = Some primaryFactory"
    using prim by simp
  have proc': "m_packetProcessor (increment c t) = Some processor"
    using proc by simp
  have cd': "(case GetContext env (m_contextManager t) address of
        Some c \<Rightarrow> context_contextData c | None \<Rightarrow> m_context (increment c t)) =
     (case GetContext env (m_contextManager t) address of
        Some c \<Rightarrow> context_contextData c | None \<Rightarrow> m_context t)"
    by (simp add: increment_def cong: option.case_cong)
  have enc': "(isEncrypted \<and> (insecure_mode env t \<longrightarrow> key \<noteq> None)) =
      (isEncrypted \<and> (insecure_mode env (increment c t) \<longrightarrow> key \<noteq> None))"
    by simp
  note run' = WriteAndFlushPacket_run [OF cls' valid key' ctx' res' prim' res(3) proc' cd' enc' refl,
      of sequence]
  show ?thesis
    unfolding run run'
    by (auto simp: increment_def InternalSendPacket_def fun_eq_iff
        split: sum.splits PacketProcessorError.splits)
qed

text \<open>
  C1, as amended: for a call of \<open>SendPacket\<close> with a valid packet and address, a call
  that is not immediate and finds room in the send queue adds one to the packets-sent
  counter and changes no other counter; a call that is not immediate and finds the queue
  full adds one to the send-queue-overflow counter and changes no other counter; an
  immediate call also runs the write step, and every counter other than packets-sent ends
  with the value \<open>WriteAndFlushPacket\<close> gives it (packets written and encrypted or
  unencrypted packets written on success, the counter of the failure otherwise).
\<close>

theorem SendPacket_counters:
  assumes "m_allocator t \<noteq> None" and "m_packetFactory t \<noteq> None"
    and "IsValid p" and "Address_IsValid address"
  shows "(\<not> immediate \<and> \<not> Queue_IsFull (m_sendQueue t) \<longrightarrow>
            (\<exists>t'. SendPacket env t address (Some p) sequence immediate = Some t' \<and>
               m_counters t' = (m_counters t)
                 (TRANSPORT_COUNTER_PACKETS_SENT :=
                    m_counters t TRANSPORT_COUNTER_PACKETS_SENT + 1))) \<and>
         (\<not> immediate \<and> Queue_IsFull (m_sendQueue t) \<longrightarrow>
            (\<exists>t'. SendPacket env t address (Some p) sequence immediate = Some t' \<and>
               m_counters t' = (m_counters t)
                 (TRANSPORT_COUNTER_SEND_QUEUE_OVERFLOW :=
                    m_counters t TRANSPORT_COUNTER_SEND_QUEUE_OVERFLOW + 1))) \<and>
         (immediate \<and> IsEncryptedPacketType t (GetType p) = Some isEncrypted \<and>
          context_ok env t address \<and> m_packetProcessor t = Some processor \<longrightarrow>
            (\<exists>t2 t'. WriteAndFlushPacket env t address (Some p) sequence = Some t2 \<and>
               SendPacket env t address (Some p) sequence immediate = Some t' \<and>
               (\<forall>c. c \<noteq> TRANSPORT_COUNTER_PACKETS_SENT \<longrightarrow>
                  m_counters t' c = m_counters t2 c)))"
proof (intro conjI impI)
  assume "\<not> immediate \<and> \<not> Queue_IsFull (m_sendQueue t)"
  with assms show "\<exists>t'. SendPacket env t address (Some p) sequence immediate = Some t' \<and>
      m_counters t' = (m_counters t)
        (TRANSPORT_COUNTER_PACKETS_SENT := m_counters t TRANSPORT_COUNTER_PACKETS_SENT + 1)"
    by (simp add: SendPacket_def Let_def)
next
  assume "\<not> immediate \<and> Queue_IsFull (m_sendQueue t)"
  with assms show "\<exists>t'. SendPacket env t address (Some p) sequence immediate = Some t' \<and>
      m_counters t' = (m_counters t)
        (TRANSPORT_COUNTER_SEND_QUEUE_OVERFLOW :=
           m_counters t TRANSPORT_COUNTER_SEND_QUEUE_OVERFLOW + 1)"
    by (simp add: SendPacket_def Let_def Packet_Destroy_def)
next
  assume imm: "immediate \<and> IsEncryptedPacketType t (GetType p) = Some isEncrypted \<and>
    context_ok env t address \<and> m_packetProcessor t = Some processor"
  then have "\<exists>t2 t2'. WriteAndFlushPacket env t address (Some p) sequence = Some t2 \<and>
      WriteAndFlushPacket env (increment TRANSPORT_COUNTER_PACKETS_SENT t) address (Some p)
        sequence = Some t2' \<and>
      m_counters t2' = (m_counters t2)
        (TRANSPORT_COUNTER_PACKETS_SENT := m_counters t2 TRANSPORT_COUNTER_PACKETS_SENT + 1)"
    using assms(3,4) by (intro WriteAndFlushPacket_counters) simp_all
  then obtain t2 t2' where
    w: "WriteAndFlushPacket env t address (Some p) sequence = Some t2"
      "WriteAndFlushPacket env (increment TRANSPORT_COUNTER_PACKETS_SENT t) address (Some p)
        sequence = Some t2'"
      "m_counters t2' = (m_counters t2)
        (TRANSPORT_COUNTER_PACKETS_SENT := m_counters t2 TRANSPORT_COUNTER_PACKETS_SENT + 1)"
    by (elim exE conjE)
  have send: "SendPacket env t address (Some p) sequence immediate =
      Some (increment TRANSPORT_COUNTER_PACKETS_SENT (Packet_Destroy p t2'))"
    using assms imm w(2) by (simp add: SendPacket_def Let_def)
  have "\<forall>c. c \<noteq> TRANSPORT_COUNTER_PACKETS_SENT \<longrightarrow>
      m_counters (increment TRANSPORT_COUNTER_PACKETS_SENT (Packet_Destroy p t2')) c =
      m_counters t2 c"
    using w(3) by (simp add: Packet_Destroy_def)
  with w(1) send
  show "\<exists>t2 t'. WriteAndFlushPacket env t address (Some p) sequence = Some t2 \<and>
      SendPacket env t address (Some p) sequence immediate = Some t' \<and>
      (\<forall>c. c \<noteq> TRANSPORT_COUNTER_PACKETS_SENT \<longrightarrow> m_counters t' c = m_counters t2 c)"
    by simp
qed

theorem SendPacket_counters_witness:
  "(\<exists>t'. SendPacket example_env example_transport (Address_Endpoint 2) (Some example_packet) 5
            False = Some t' \<and>
         m_counters t' = (\<lambda>c. 0)(TRANSPORT_COUNTER_PACKETS_SENT := 1)) \<and>
   (\<exists>t'. SendPacket example_env example_full (Address_Endpoint 2) (Some example_packet) 5
            False = Some t' \<and>
         m_counters t' = (\<lambda>c. 0)(TRANSPORT_COUNTER_SEND_QUEUE_OVERFLOW := 1)) \<and>
   (\<exists>t2 t'. WriteAndFlushPacket example_env example_transport (Address_Endpoint 2)
            (Some example_packet) 5 = Some t2 \<and>
         SendPacket example_env example_transport (Address_Endpoint 2) (Some example_packet) 5
            True = Some t' \<and>
         (\<forall>c. c \<noteq> TRANSPORT_COUNTER_PACKETS_SENT \<longrightarrow> m_counters t' c = m_counters t2 c))"
  using SendPacket_counters [where env = example_env and t = example_transport
      and p = example_packet and address = "Address_Endpoint 2" and sequence = 5
      and immediate = False]
    SendPacket_counters [where env = example_env and t = example_full
      and p = example_packet and address = "Address_Endpoint 2" and sequence = 5
      and immediate = False]
    SendPacket_counters [where env = example_env and t = example_transport
      and p = example_packet and address = "Address_Endpoint 2" and sequence = 5
      and immediate = True and isEncrypted = False
      and processor = "\<lparr>processor_maxPacketSize = 1200, processor_context = None,
        processor_calls = []\<rparr>"]
  by (simp add: example_full_def example_transport_def example_fresh_def example_env_def
      example_factory_def example_packet_def IsEncryptedPacketType_def
      context_ok_def Queue_IsFull_def Address_IsValid_def)

lemma example_immediate_send:
  "SendPacket example_env example_transport (Address_Endpoint 2) (Some example_packet) 5 True =
   Some (example_transport
     \<lparr>m_packetProcessor := Some \<lparr>processor_maxPacketSize = 1200, processor_context = None,
        processor_calls = [WritePacketCall example_packet 5 False None 0 example_factory]\<rparr>,
      m_counters := (\<lambda>c. 0)(TRANSPORT_COUNTER_PACKETS_SENT := 2,
        TRANSPORT_COUNTER_PACKETS_WRITTEN := 1,
        TRANSPORT_COUNTER_UNENCRYPTED_PACKETS_WRITTEN := 1),
      destroyed := [example_packet],
      io_sent := [(Address_Endpoint 2, [0, 1])]\<rparr>)"
  by (simp add: SendPacket_def WriteAndFlushPacket_def IsEncryptedPacketType_def Let_def
      example_transport_def example_fresh_def example_env_def example_factory_def
      example_packet_def Address_IsValid_def GetTime_def GetFlags_def increment_def
      Packet_Destroy_def InternalSendPacket_def fun_eq_iff)

text \<open>
  C1 as stated fails for an immediate send: starting from counters at zero, one immediate
  \<open>SendPacket\<close> of a packet that is written successfully leaves the packets-sent counter
  at 2 and the packets-written counter at 1.
\<close>

theorem SendPacket_immediate_counterexample:
  "GetCounter example_transport TRANSPORT_COUNTER_PACKETS_SENT = 0 \<and>
   GetCounter example_transport TRANSPORT_COUNTER_PACKETS_WRITTEN = 0 \<and>
   counter_after
     (SendPacket example_env example_transport (Address_Endpoint 2) (Some example_packet) 5 True)
     TRANSPORT_COUNTER_PACKETS_SENT = Some 2 \<and>
   counter_after
     (SendPacket example_env example_transport (Address_Endpoint 2) (Some example_packet) 5 True)
     TRANSPORT_COUNTER_PACKETS_WRITTEN = Some 1"
  by (simp add: example_immediate_send counter_after_def GetCounter_def)
    (simp add: example_transport_def example_fresh_def)

lemma WritePackets_loop_empty:
  "queue_entries (m_sendQueue t) = [] \<Longrightarrow> WritePackets_loop env t = Some t"
  by (simp add: Queue_IsEmpty_def)

text \<open>
  C3: \<open>WritePackets\<close> on a send queue holding one packet, whose type is classified as
  encrypted, for an address without send key, where the packet processor (called with the
  key absent and the encrypt flag the write step computes, which is true unless insecure
  mode is engaged) fails with \<open>PACKET_PROCESSOR_ERROR_KEY_IS_NULL\<close>: the call returns, the
  encryption-mapping-failures counter has gone up by one and no other counter has
  changed, nothing was handed to \<open>InternalSendPacket\<close>, the queue is empty, and the packet
  was destroyed by \<open>WritePackets\<close>.
\<close>

theorem WritePackets_key_is_null:
  assumes live: "m_allocator t \<noteq> None"
    and proc: "m_packetProcessor t = Some processor"
    and queue: "queue_entries (m_sendQueue t) = [entry]"
    and entry: "entry_packet entry = Some p" "IsValid p" "Address_IsValid (entry_address entry)"
    and cls: "IsEncryptedPacketType t (GetType p) = Some True"
    and nokey: "GetSendKey env (m_encryptionManager t) (entry_address entry) (GetTime t) =
                (None, encryptionManager)"
    and lookup: "GetContext env (m_contextManager t) (entry_address entry) = ctx"
    and alloc: "(case ctx of Some c \<Rightarrow> context_streamAllocator c
                 | None \<Rightarrow> m_streamAllocator t) = Some streamAllocator"
    and fac: "(case ctx of Some c \<Rightarrow> context_packetFactory c
               | None \<Rightarrow> m_packetFactory t) = Some packetFactory"
    and prim: "m_packetFactory t = Some primaryFactory"
    and num: "GetNumPacketTypes packetFactory = GetNumPacketTypes primaryFactory"
    and fails: "WritePacket env
        (case ctx of Some c \<Rightarrow> context_contextData c | None \<Rightarrow> m_context t)
        p (entry_sequence entry) (\<not> insecure_mode env t) None streamAllocator packetFactory =
      Inl PACKET_PROCESSOR_ERROR_KEY_IS_NULL"
  shows "\<exists>t'. WritePackets env t = Some t' \<and>
      m_counters t' = (m_counters t)
        (TRANSPORT_COUNTER_ENCRYPTION_MAPPING_FAILURES :=
           m_counters t TRANSPORT_COUNTER_ENCRYPTION_MAPPING_FAILURES + 1) \<and>
      io_sent t' = io_sent t \<and>
      destroyed t' = destroyed t @ [p] \<and>
      queue_entries (m_sendQueue t') = []"
proof -
  let ?t1 = "t\<lparr>m_sendQueue := (m_sendQueue t)\<lparr>queue_entries := []\<rparr>\<rparr>"
  let ?contextData = "case ctx of Some c \<Rightarrow> context_contextData c | None \<Rightarrow> m_context t"
  let ?t2 = "?t1\<lparr>m_encryptionManager := encryptionManager,
                 m_packetProcessor := Some (processor
                   \<lparr>processor_context := ?contextData,
                    processor_calls := processor_calls processor @
                      [WritePacketCall p (entry_sequence entry) (\<not> insecure_mode env t) None
                         streamAllocator packetFactory]\<rparr>)\<rparr>"
  let ?t3 = "Packet_Destroy p (increment TRANSPORT_COUNTER_ENCRYPTION_MAPPING_FAILURES ?t2)"
  have flush: "WriteAndFlushPacket env ?t1 (entry_address entry) (Some p) (entry_sequence entry) =
      Some (increment TRANSPORT_COUNTER_ENCRYPTION_MAPPING_FAILURES ?t2)"
    using fails
    by (subst WriteAndFlushPacket_run [where isEncrypted = True and key = None
          and encryptionManager = encryptionManager and ctx = ctx
          and streamAllocator = streamAllocator and packetFactory = packetFactory
          and primaryFactory = primaryFactory and processor = processor
          and contextData = "?contextData" and encrypt = "\<not> insecure_mode env t"
          and called = "?t2"])
      (use cls entry nokey lookup alloc fac prim num proc in
        \<open>simp_all cong: option.case_cong\<close>)
  have body: "WritePackets_body env t = Some ?t3"
    using queue entry flush by (simp add: WritePackets_body_def Queue_Pop_def)
  have "queue_entries (m_sendQueue ?t3) = []"
    by (simp add: Packet_Destroy_def)
  then have "WritePackets_loop env ?t3 = Some ?t3"
    by (rule WritePackets_loop_empty)
  with body queue have "WritePackets_loop env t = Some ?t3"
    by (subst WritePackets_loop.simps) (simp add: Queue_IsEmpty_def)
  with live prim proc have "WritePackets env t = Some ?t3"
    by (simp add: WritePackets_def)
  then show ?thesis
    by (simp add: Packet_Destroy_def)
qed

theorem WritePackets_key_is_null_witness:
  "\<exists>t'. WritePackets example_env
        (example_encrypting\<lparr>m_sendQueue :=
           \<lparr>queue_entries = [example_entry 1], queue_size = 2\<rparr>\<rparr>) = Some t' \<and>
      m_counters t' = (\<lambda>c. 0)(TRANSPORT_COUNTER_ENCRYPTION_MAPPING_FAILURES := 1) \<and>
      io_sent t' = [] \<and>
      destroyed t' = [\<lparr>GetType = 1, IsValid = True, packet_ident = 1\<rparr>] \<and>
      queue_entries (m_sendQueue t') = []"
  using WritePackets_key_is_null [where env = example_env
      and t = "example_encrypting\<lparr>m_sendQueue :=
           \<lparr>queue_entries = [example_entry 1], queue_size = 2\<rparr>\<rparr>"
      and processor = "\<lparr>processor_maxPacketSize = 1200, processor_context = None,
        processor_calls = []\<rparr>"
      and entry = "example_entry 1"
      and p = "\<lparr>GetType = 1, IsValid = True, packet_ident = 1\<rparr>"
      and encryptionManager = "[]" and ctx = None and streamAllocator = 0
      and packetFactory = example_factory and primaryFactory = example_factory]
  by (simp add: example_encrypting_def example_transport_def example_fresh_def
      example_env_def example_factory_def example_entry_def IsEncryptedPacketType_def
      insecure_mode_def GetFlags_def GetTime_def Address_IsValid_def)

subsection \<open>The read loop\<close>

lemma ReadPackets_body_run:
  assumes pending: "io_pending t = (address, datagram) # rest"
    and buf: "take (nat maxPacketSize) datagram = packetBuffer" "packetBuffer \<noteq> []"
    and room: "\<not> Queue_IsFull (m_receiveQueue t)"
    and key: "GetReceiveKey env (m_encryptionManager t) address (GetTime t) =
              (key, encryptionManager)"
    and lookup: "GetContext env (m_contextManager t) address = ctx"
    and alloc: "(case ctx of Some c \<Rightarrow> context_streamAllocator c
                 | None \<Rightarrow> m_streamAllocator t) = Some streamAllocator"
    and fac: "(case ctx of Some c \<Rightarrow> context_packetFactory c
               | None \<Rightarrow> m_packetFactory t) = Some packetFactory"
    and prim: "m_packetFactory t = Some primaryFactory"
    and num: "GetNumPacketTypes packetFactory = GetNumPacketTypes primaryFactory"
    and proc: "m_packetProcessor t = Some processor"
    and cd: "(case ctx of Some c \<Rightarrow> context_contextData c | None \<Rightarrow> m_context t) =
             contextData"
    and enc: "(if insecure_mode env t then m_allPacketTypes t else m_packetTypeIsEncrypted t) =
              encryptedPacketTypes"
    and unenc: "(if insecure_mode env t then m_allPacketTypes t
                 else m_packetTypeIsUnencrypted t) = unencryptedPacketTypes"
    and called: "called = t\<lparr>io_pending := rest, m_encryptionManager := encryptionManager,
                     m_packetProcessor := Some (processor
                       \<lparr>processor_context := contextData,
                        processor_calls := processor_calls processor @
                          [ReadPacketCall packetBuffer key encryptedPacketTypes
                             unencryptedPacketTypes streamAllocator packetFactory]\<rparr>)\<rparr>"
  shows "ReadPackets_body env maxPacketSize t =
     (case ReadPacket env contextData packetBuffer key encryptedPacketTypes
             unencryptedPacketTypes streamAllocator packetFactory of
        Inl error \<Rightarrow>
          (case error of
             PACKET_PROCESSOR_ERROR_KEY_IS_NULL \<Rightarrow>
               Some (Continue, increment TRANSPORT_COUNTER_ENCRYPTION_MAPPING_FAILURES called)
           | PACKET_PROCESSOR_ERROR_DECRYPT_FAILED \<Rightarrow>
               Some (Continue, increment TRANSPORT_COUNTER_ENCRYPT_PACKET_FAILURES called)
           | PACKET_PROCESSOR_ERROR_PACKET_TOO_SMALL \<Rightarrow>
               Some (Continue, increment TRANSPORT_COUNTER_DECRYPT_PACKET_FAILURES called)
           | PACKET_PROCESSOR_ERROR_READ_PACKET_FAILED \<Rightarrow>
               Some (Continue, increment TRANSPORT_COUNTER_READ_PACKET_FAILURES called)
           | _ \<Rightarrow> Some (Continue, called))
      | Inr (packet, sequence, encrypted) \<Rightarrow>
          (if encrypted
           then Some (Continue, increment TRANSPORT_COUNTER_ENCRYPTED_PACKETS_READ
                  (increment TRANSPORT_COUNTER_PACKETS_READ
                     (called\<lparr>m_receiveQueue := Queue_Push (m_receiveQueue t)
                          \<lparr>entry_sequence = sequence, entry_address = address,
                           entry_packet = Some packet\<rparr>\<rparr>)))
           else Some (Continue, increment TRANSPORT_COUNTER_UNENCRYPTED_PACKETS_READ
                  (increment TRANSPORT_COUNTER_PACKETS_READ
                     (called\<lparr>m_receiveQueue := Queue_Push (m_receiveQueue t)
                          \<lparr>entry_sequence = sequence, entry_address = address,
                           entry_packet = Some packet\<rparr>\<rparr>)))))"
proof -
  have recv: "InternalReceivePacket t maxPacketSize =
      (t\<lparr>io_pending := rest\<rparr>, address, packetBuffer, int (length packetBuffer))"
    unfolding buf(1) [symmetric] using pending by (simp add: InternalReceivePacket_def)
  have len: "int (length packetBuffer) \<noteq> 0" "0 < int (length packetBuffer)"
    using buf(2) by simp_all
  have ins: "(YOJIMBO_INSECURE_CONNECT env \<and>
      m_flags t AND TRANSPORT_FLAG_INSECURE_MODE env \<noteq> 0) = insecure_mode env t"
    by (simp add: insecure_mode_def GetFlags_def)
  show ?thesis
    using room key lookup alloc fac prim num proc cd enc unenc len
    by (simp add: ReadPackets_body_def recv Let_def GetFlags_def GetTime_def ins called
        cong: option.case_cong sum.case_cong PacketProcessorError.case_cong if_cong
          prod.case_cong)
qed

text \<open>
  C8: in a turn of the drain loop of \<open>ReadPackets\<close> that receives a datagram while the
  receive queue has room, and in which \<open>ReadPacket\<close> fails with one of the errors of the
  read direction (key is null, decrypt failed, packet too small, read packet failed),
  exactly one failure counter goes up by one and no other counter changes, the receive
  queue is unchanged, and the loop goes on with the datagrams that are still pending:
  the drain from this transport is the drain from the transport after the turn. (The
  other two error codes belong to \<open>WritePacket\<close>; the \<open>switch\<close> sends them to \<open>default\<close>.)
\<close>

theorem ReadPackets_failure_continues:
  assumes pending: "io_pending t = (address, datagram) # rest"
    and buf: "take (nat maxPacketSize) datagram \<noteq> []"
    and room: "\<not> Queue_IsFull (m_receiveQueue t)"
    and key: "GetReceiveKey env (m_encryptionManager t) address (GetTime t) =
              (key, encryptionManager)"
    and lookup: "GetContext env (m_contextManager t) address = ctx"
    and alloc: "(case ctx of Some c \<Rightarrow> context_streamAllocator c
                 | None \<Rightarrow> m_streamAllocator t) = Some streamAllocator"
    and fac: "(case ctx of Some c \<Rightarrow> context_packetFactory c
               | None \<Rightarrow> m_packetFactory t) = Some packetFactory"
    and prim: "m_packetFactory t = Some primaryFactory"
    and num: "GetNumPacketTypes packetFactory = GetNumPacketTypes primaryFactory"
    and proc: "m_packetProcessor t = Some processor"
    and fails: "ReadPacket env
        (case ctx of Some c \<Rightarrow> context_contextData c | None \<Rightarrow> m_context t)
        (take (nat maxPacketSize) datagram) key
        (if insecure_mode env t then m_allPacketTypes t else m_packetTypeIsEncrypted t)
        (if insecure_mode env t then m_allPacketTypes t else m_packetTypeIsUnencrypted t)
        streamAllocator packetFactory = Inl error"
    and kind: "error \<in> {PACKET_PROCESSOR_ERROR_KEY_IS_NULL, PACKET_PROCESSOR_ERROR_DECRYPT_FAILED,
        PACKET_PROCESSOR_ERROR_PACKET_TOO_SMALL, PACKET_PROCESSOR_ERROR_READ_PACKET_FAILED}"
  shows "\<exists>t'. ReadPackets_body env maxPacketSize t = Some (Continue, t') \<and>
      ReadPackets_loop env maxPacketSize t = ReadPackets_loop env maxPacketSize t' \<and>
      io_pending t' = rest \<and>
      m_receiveQueue t' = m_receiveQueue t \<and>
      (\<exists>c \<in> {TRANSPORT_COUNTER_ENCRYPTION_MAPPING_FAILURES,
              TRANSPORT_COUNTER_ENCRYPT_PACKET_FAILURES,
              TRANSPORT_COUNTER_DECRYPT_PACKET_FAILURES,
              TRANSPORT_COUNTER_READ_PACKET_FAILURES}.
         m_counters t' = (m_counters t)(c := m_counters t c + 1))"
proof -
  note run = ReadPackets_body_run [OF pending refl buf room key lookup alloc fac prim num proc
      refl refl refl refl]
  from kind fails have "\<exists>c \<in> {TRANSPORT_COUNTER_ENCRYPTION_MAPPING_FAILURES,
              TRANSPORT_COUNTER_ENCRYPT_PACKET_FAILURES,
              TRANSPORT_COUNTER_DECRYPT_PACKET_FAILURES,
              TRANSPORT_COUNTER_READ_PACKET_FAILURES}.
      \<exists>t'. ReadPackets_body env maxPacketSize t = Some (Continue, t') \<and>
        io_pending t' = rest \<and> m_receiveQueue t' = m_receiveQueue t \<and>
        m_counters t' = (m_counters t)(c := m_counters t c + 1)"
    unfolding run by (auto simp: increment_def)
  then obtain c t' where c: "c \<in> {TRANSPORT_COUNTER_ENCRYPTION_MAPPING_FAILURES,
              TRANSPORT_COUNTER_ENCRYPT_PACKET_FAILURES,
              TRANSPORT_COUNTER_DECRYPT_PACKET_FAILURES,
              TRANSPORT_COUNTER_READ_PACKET_FAILURES}"
    and body: "ReadPackets_body env maxPacketSize t = Some (Continue, t')"
    and rest: "io_pending t' = rest" "m_receiveQueue t' = m_receiveQueue t"
      "m_counters t' = (m_counters t)(c := m_counters t c + 1)"
    by (elim bexE exE conjE)
  have loop: "ReadPackets_loop env maxPacketSize t = ReadPackets_loop env maxPacketSize t'"
    by (subst ReadPackets_loop.simps) (simp add: body)
  from c rest(3) have "\<exists>c \<in> {TRANSPORT_COUNTER_ENCRYPTION_MAPPING_FAILURES,
              TRANSPORT_COUNTER_ENCRYPT_PACKET_FAILURES,
              TRANSPORT_COUNTER_DECRYPT_PACKET_FAILURES,
              TRANSPORT_COUNTER_READ_PACKET_FAILURES}.
         m_counters t' = (m_counters t)(c := m_counters t c + 1)"
    by (rule bexI [rotated])
  with body loop rest(1,2) show ?thesis
    by (intro exI [of _ t'] conjI)
qed

theorem ReadPackets_failure_continues_witness:
  "\<exists>t'. ReadPackets_body example_env 1200
        (example_transport\<lparr>io_pending :=
           [(Address_Endpoint 2, [0]), (Address_Endpoint 2, [0, 2])]\<rparr>) = Some (Continue, t') \<and>
      ReadPackets_loop example_env 1200
        (example_transport\<lparr>io_pending :=
           [(Address_Endpoint 2, [0]), (Address_Endpoint 2, [0, 2])]\<rparr>) =
        ReadPackets_loop example_env 1200 t' \<and>
      io_pending t' = [(Address_Endpoint 2, [0, 2])] \<and>
      m_receiveQueue t' = \<lparr>queue_entries = [], queue_size = 2\<rparr> \<and>
      (\<exists>c \<in> {TRANSPORT_COUNTER_ENCRYPTION_MAPPING_FAILURES,
              TRANSPORT_COUNTER_ENCRYPT_PACKET_FAILURES,
              TRANSPORT_COUNTER_DECRYPT_PACKET_FAILURES,
              TRANSPORT_COUNTER_READ_PACKET_FAILURES}.
         m_counters t' = (\<lambda>c. 0)(c := 1))"
  using ReadPackets_failure_continues [where env = example_env
      and t = "example_transport\<lparr>io_pending :=
           [(Address_Endpoint 2, [0]), (Address_Endpoint 2, [0, 2])]\<rparr>"
      and address = "Address_Endpoint 2" and datagram = "[0]"
      and rest = "[(Address_Endpoint 2, [0, 2])]" and maxPacketSize = 1200
      and key = None and encryptionManager = "[]" and ctx = None and streamAllocator = 0
      and packetFactory = example_factory and primaryFactory = example_factory
      and processor = "\<lparr>processor_maxPacketSize = 1200, processor_context = None,
        processor_calls = []\<rparr>"
      and error = PACKET_PROCESSOR_ERROR_PACKET_TOO_SMALL]
  by (simp add: example_transport_def example_fresh_def example_env_def example_factory_def
      insecure_mode_def GetFlags_def GetTime_def Queue_IsFull_def)

lemma ReadPackets_body_overflow:
  assumes pending: "io_pending t = (address, datagram) # rest"
    and buf: "take (nat maxPacketSize) datagram \<noteq> []"
    and full: "Queue_IsFull (m_receiveQueue t)"
  shows "ReadPackets_body env maxPacketSize t =
     Some (Break, increment TRANSPORT_COUNTER_RECEIVE_QUEUE_OVERFLOW (t\<lparr>io_pending := rest\<rparr>))"
proof -
  define packetBuffer where "packetBuffer = take (nat maxPacketSize) datagram"
  have recv: "InternalReceivePacket t maxPacketSize =
      (t\<lparr>io_pending := rest\<rparr>, address, packetBuffer, int (length packetBuffer))"
    unfolding packetBuffer_def using pending by (simp add: InternalReceivePacket_def)
  from buf have "packetBuffer \<noteq> []"
    by (simp only: packetBuffer_def not_False_eq_True)
  then have "int (length packetBuffer) \<noteq> 0" "0 < int (length packetBuffer)"
    by simp_all
  with full show ?thesis
    unfolding ReadPackets_body_def recv by simp
qed

lemma Queue_Push_entries:
  "\<not> Queue_IsFull q \<Longrightarrow> queue_entries (Queue_Push q entry) = queue_entries q @ [entry]"
  "queue_size (Queue_Push q entry) = queue_size q"
  by (simp_all add: Queue_Push_def)

lemma ReadPackets_body_success:
  assumes pending: "io_pending t = (address, datagram) # rest"
    and buf: "take (nat maxPacketSize) datagram \<noteq> []"
    and room: "\<not> Queue_IsFull (m_receiveQueue t)"
    and key: "GetReceiveKey env (m_encryptionManager t) address (GetTime t) =
              (key, encryptionManager)"
    and lookup: "GetContext env (m_contextManager t) address = ctx"
    and alloc: "(case ctx of Some c \<Rightarrow> context_streamAllocator c
                 | None \<Rightarrow> m_streamAllocator t) = Some streamAllocator"
    and fac: "(case ctx of Some c \<Rightarrow> context_packetFactory c
               | None \<Rightarrow> m_packetFactory t) = Some packetFactory"
    and prim: "m_packetFactory t = Some primaryFactory"
    and num: "GetNumPacketTypes packetFactory = GetNumPacketTypes primaryFactory"
    and proc: "m_packetProcessor t = Some processor"
    and succeeds: "ReadPacket env
        (case ctx of Some c \<Rightarrow> context_contextData c | None \<Rightarrow> m_context t)
        (take (nat maxPacketSize) datagram) key
        (if insecure_mode env t then m_allPacketTypes t else m_packetTypeIsEncrypted t)
        (if insecure_mode env t then m_allPacketTypes t else m_packetTypeIsUnencrypted t)
        streamAllocator packetFactory = Inr (packet, sequence, encrypted)"
  shows "\<exists>calls. ReadPackets_body env maxPacketSize t =
      Some (Continue,
        t\<lparr>io_pending := rest,
          m_encryptionManager := encryptionManager,
          m_packetProcessor := Some (processor
            \<lparr>processor_context :=
               (case ctx of Some c \<Rightarrow> context_contextData c | None \<Rightarrow> m_context t),
             processor_calls := calls\<rparr>),
          m_receiveQueue := Queue_Push (m_receiveQueue t)
            \<lparr>entry_sequence = sequence, entry_address = address, entry_packet = Some packet\<rparr>,
          m_counters := (m_counters t)
            (TRANSPORT_COUNTER_PACKETS_READ := m_counters t TRANSPORT_COUNTER_PACKETS_READ + 1,
             (if encrypted then TRANSPORT_COUNTER_ENCRYPTED_PACKETS_READ
              else TRANSPORT_COUNTER_UNENCRYPTED_PACKETS_READ) :=
               m_counters t (if encrypted then TRANSPORT_COUNTER_ENCRYPTED_PACKETS_READ
                  else TRANSPORT_COUNTER_UNENCRYPTED_PACKETS_READ) + 1)\<rparr>)"
proof -
  note run = ReadPackets_body_run [OF pending refl buf room key lookup alloc fac prim num proc
      refl refl refl refl]
  show ?thesis
    unfolding run succeeds
    by (rule exI [of _ "processor_calls processor @
          [ReadPacketCall (take (nat maxPacketSize) datagram) key
             (if insecure_mode env t then m_allPacketTypes t else m_packetTypeIsEncrypted t)
             (if insecure_mode env t then m_allPacketTypes t else m_packetTypeIsUnencrypted t)
             streamAllocator packetFactory]"])
      (cases encrypted; simp add: increment_def)
qed

text \<open>
  C2, as amended: with an empty receive queue of capacity 2 and exactly three datagrams
  pending at the raw I/O layer, where the two calls of \<open>ReadPacket\<close> that the loop makes
  (on the first datagram, and on the second with the encryption manager as the first key
  lookup left it) succeed, \<open>ReadPackets\<close> returns with exactly two entries in the receive
  queue, the packets read from the first two datagrams in order, and the
  receive-queue-overflow counter one higher; the third datagram has been taken from the
  raw I/O layer and dropped: nothing is pending afterwards.
\<close>

theorem ReadPackets_drain_stops_at_capacity:
  assumes live: "m_allocator t \<noteq> None"
    and prim: "m_packetFactory t = Some primaryFactory"
    and proc: "m_packetProcessor t = Some processor"
    and size: "maxPacketSize = processor_maxPacketSize processor"
    and capacity: "queue_size (m_receiveQueue t) = 2"
    and empty: "queue_entries (m_receiveQueue t) = []"
    and pending: "io_pending t = [(addressA, datagramA), (addressB, datagramB),
        (addressC, datagramC)]"
    and buf: "take (nat maxPacketSize) datagramA \<noteq> []"
      "take (nat maxPacketSize) datagramB \<noteq> []"
      "take (nat maxPacketSize) datagramC \<noteq> []"
    and types: "encryptedTypes =
        (if insecure_mode env t then m_allPacketTypes t else m_packetTypeIsEncrypted t)"
      "unencryptedTypes =
        (if insecure_mode env t then m_allPacketTypes t else m_packetTypeIsUnencrypted t)"
    and keyA: "GetReceiveKey env (m_encryptionManager t) addressA (GetTime t) =
        (keyA, managerA)"
    and lookupA: "GetContext env (m_contextManager t) addressA = ctxA"
    and allocA: "(case ctxA of Some c \<Rightarrow> context_streamAllocator c
                  | None \<Rightarrow> m_streamAllocator t) = Some allocatorA"
    and facA: "(case ctxA of Some c \<Rightarrow> context_packetFactory c
                | None \<Rightarrow> m_packetFactory t) = Some factoryA"
    and numA: "GetNumPacketTypes factoryA = GetNumPacketTypes primaryFactory"
    and readA: "ReadPacket env
        (case ctxA of Some c \<Rightarrow> context_contextData c | None \<Rightarrow> m_context t)
        (take (nat maxPacketSize) datagramA) keyA encryptedTypes unencryptedTypes
        allocatorA factoryA = Inr (packetA, sequenceA, encryptedA)"
    and keyB: "GetReceiveKey env managerA addressB (GetTime t) = (keyB, managerB)"
    and lookupB: "GetContext env (m_contextManager t) addressB = ctxB"
    and allocB: "(case ctxB of Some c \<Rightarrow> context_streamAllocator c
                  | None \<Rightarrow> m_streamAllocator t) = Some allocatorB"
    and facB: "(case ctxB of Some c \<Rightarrow> context_packetFactory c
                | None \<Rightarrow> m_packetFactory t) = Some factoryB"
    and numB: "GetNumPacketTypes factoryB = GetNumPacketTypes primaryFactory"
    and readB: "ReadPacket env
        (case ctxB of Some c \<Rightarrow> context_contextData c | None \<Rightarrow> m_context t)
        (take (nat maxPacketSize) datagramB) keyB encryptedTypes unencryptedTypes
        allocatorB factoryB = Inr (packetB, sequenceB, encryptedB)"
  shows "\<exists>t'. ReadPackets env t = Some t' \<and>
      queue_entries (m_receiveQueue t') =
        [\<lparr>entry_sequence = sequenceA, entry_address = addressA, entry_packet = Some packetA\<rparr>,
         \<lparr>entry_sequence = sequenceB, entry_address = addressB, entry_packet = Some packetB\<rparr>] \<and>
      m_counters t' TRANSPORT_COUNTER_RECEIVE_QUEUE_OVERFLOW =
        m_counters t TRANSPORT_COUNTER_RECEIVE_QUEUE_OVERFLOW + 1 \<and>
      io_pending t' = []"
proof -
  let ?entryA = "\<lparr>entry_sequence = sequenceA, entry_address = addressA,
                  entry_packet = Some packetA\<rparr>"
  let ?entryB = "\<lparr>entry_sequence = sequenceB, entry_address = addressB,
                  entry_packet = Some packetB\<rparr>"
  have room: "\<not> Queue_IsFull (m_receiveQueue t)"
    using capacity empty by (simp add: Queue_IsFull_def)
  from ReadPackets_body_success [OF pending buf(1) room keyA lookupA allocA facA prim numA proc
      readA [unfolded types]]
  obtain callsA tA where
    bodyA: "ReadPackets_body env maxPacketSize t = Some (Continue, tA)"
    and tA: "tA = t\<lparr>io_pending := [(addressB, datagramB), (addressC, datagramC)],
          m_encryptionManager := managerA,
          m_packetProcessor := Some (processor
            \<lparr>processor_context :=
               (case ctxA of Some c \<Rightarrow> context_contextData c | None \<Rightarrow> m_context t),
             processor_calls := callsA\<rparr>),
          m_receiveQueue := Queue_Push (m_receiveQueue t) ?entryA,
          m_counters := (m_counters t)
            (TRANSPORT_COUNTER_PACKETS_READ := m_counters t TRANSPORT_COUNTER_PACKETS_READ + 1,
             (if encryptedA then TRANSPORT_COUNTER_ENCRYPTED_PACKETS_READ
              else TRANSPORT_COUNTER_UNENCRYPTED_PACKETS_READ) :=
               m_counters t (if encryptedA then TRANSPORT_COUNTER_ENCRYPTED_PACKETS_READ
                  else TRANSPORT_COUNTER_UNENCRYPTED_PACKETS_READ) + 1)\<rparr>"
    by (elim exE) simp
  have pendingA: "io_pending tA = [(addressB, datagramB), (addressC, datagramC)]"
    by (simp add: tA)
  have entriesA: "queue_entries (m_receiveQueue tA) = [?entryA]"
    "queue_size (m_receiveQueue tA) = 2"
    using room empty capacity by (simp_all add: tA Queue_Push_entries)
  then have roomA: "\<not> Queue_IsFull (m_receiveQueue tA)"
    by (simp add: Queue_IsFull_def)
  have overflowA: "m_counters tA TRANSPORT_COUNTER_RECEIVE_QUEUE_OVERFLOW =
      m_counters t TRANSPORT_COUNTER_RECEIVE_QUEUE_OVERFLOW"
    by (simp add: tA)
  have keyB': "GetReceiveKey env (m_encryptionManager tA) addressB (GetTime tA) =
      (keyB, managerB)"
    using keyB by (simp add: tA GetTime_def)
  have lookupB': "GetContext env (m_contextManager tA) addressB = ctxB"
    using lookupB by (simp add: tA)
  have allocB': "(case ctxB of Some c \<Rightarrow> context_streamAllocator c
                  | None \<Rightarrow> m_streamAllocator tA) = Some allocatorB"
    using allocB by (simp add: tA cong: option.case_cong)
  have facB': "(case ctxB of Some c \<Rightarrow> context_packetFactory c
                | None \<Rightarrow> m_packetFactory tA) = Some factoryB"
    using facB by (simp add: tA cong: option.case_cong)
  have primA: "m_packetFactory tA = Some primaryFactory"
    using prim by (simp add: tA)
  have procA: "m_packetProcessor tA = Some (processor
            \<lparr>processor_context :=
               (case ctxA of Some c \<Rightarrow> context_contextData c | None \<Rightarrow> m_context t),
             processor_calls := callsA\<rparr>)"
    by (simp add: tA)
  have readB': "ReadPacket env
        (case ctxB of Some c \<Rightarrow> context_contextData c | None \<Rightarrow> m_context tA)
        (take (nat maxPacketSize) datagramB) keyB
        (if insecure_mode env tA then m_allPacketTypes tA else m_packetTypeIsEncrypted tA)
        (if insecure_mode env tA then m_allPacketTypes tA else m_packetTypeIsUnencrypted tA)
        allocatorB factoryB = Inr (packetB, sequenceB, encryptedB)"
  proof -
    have frame: "insecure_mode env tA = insecure_mode env t"
      "m_allPacketTypes tA = m_allPacketTypes t"
      "m_packetTypeIsEncrypted tA = m_packetTypeIsEncrypted t"
      "m_packetTypeIsUnencrypted tA = m_packetTypeIsUnencrypted t"
      "m_context tA = m_context t"
      by (simp_all add: tA insecure_mode_def GetFlags_def)
    show ?thesis
      unfolding frame by (rule readB [unfolded types])
  qed
  from ReadPackets_body_success [OF pendingA buf(2) roomA keyB' lookupB' allocB' facB' primA
      numB procA readB']
  obtain tB where
    bodyB: "ReadPackets_body env maxPacketSize tA = Some (Continue, tB)"
    and pendingB: "io_pending tB = [(addressC, datagramC)]"
    and queueB: "m_receiveQueue tB = Queue_Push (m_receiveQueue tA) ?entryB"
    and overflowB: "m_counters tB TRANSPORT_COUNTER_RECEIVE_QUEUE_OVERFLOW =
        m_counters tA TRANSPORT_COUNTER_RECEIVE_QUEUE_OVERFLOW"
    by (elim exE) simp
  have entriesB: "queue_entries (m_receiveQueue tB) = [?entryA, ?entryB]"
    "queue_size (m_receiveQueue tB) = 2"
    using roomA entriesA by (simp_all add: queueB Queue_Push_entries)
  then have fullB: "Queue_IsFull (m_receiveQueue tB)"
    by (simp add: Queue_IsFull_def)
  let ?tC = "increment TRANSPORT_COUNTER_RECEIVE_QUEUE_OVERFLOW (tB\<lparr>io_pending := []\<rparr>)"
  have bodyC: "ReadPackets_body env maxPacketSize tB = Some (Break, ?tC)"
    using pendingB buf(3) fullB by (rule ReadPackets_body_overflow)
  have "ReadPackets_loop env maxPacketSize tB = Some ?tC"
    by (subst ReadPackets_loop.simps) (simp add: bodyC)
  then have "ReadPackets_loop env maxPacketSize tA = Some ?tC"
    by (subst ReadPackets_loop.simps) (simp add: bodyB)
  then have "ReadPackets_loop env maxPacketSize t = Some ?tC"
    by (subst ReadPackets_loop.simps) (simp add: bodyA)
  then have run: "ReadPackets env t = Some ?tC"
    using live prim proc size by (simp add: ReadPackets_def GetMaxPacketSize_def)
  show ?thesis
    by (rule exI [of _ ?tC]) (simp add: run entriesB overflowA overflowB)
qed

theorem ReadPackets_drain_stops_at_capacity_witness:
  "\<exists>t'. ReadPackets example_env example_three_pending = Some t' \<and>
      queue_entries (m_receiveQueue t') =
        [\<lparr>entry_sequence = 0, entry_address = Address_Endpoint 2,
          entry_packet = Some \<lparr>GetType = 1, IsValid = True, packet_ident = 0\<rparr>\<rparr>,
         \<lparr>entry_sequence = 0, entry_address = Address_Endpoint 2,
          entry_packet = Some \<lparr>GetType = 2, IsValid = True, packet_ident = 0\<rparr>\<rparr>] \<and>
      m_counters t' TRANSPORT_COUNTER_RECEIVE_QUEUE_OVERFLOW = 1 \<and>
      io_pending t' = []"
proof -
  let ?t = example_three_pending
  let ?processor = "\<lparr>processor_maxPacketSize = 1200, processor_context = None,
        processor_calls = []\<rparr>"
  have live: "m_allocator ?t \<noteq> None"
    and prim: "m_packetFactory ?t = Some example_factory"
    and proc: "m_packetProcessor ?t = Some ?processor"
    and size: "(1200::int) = processor_maxPacketSize ?processor"
    and capacity: "queue_size (m_receiveQueue ?t) = 2"
    and empty: "queue_entries (m_receiveQueue ?t) = []"
    and pending: "io_pending ?t = [(Address_Endpoint 2, [0, 1]), (Address_Endpoint 2, [0, 2]),
        (Address_Endpoint 3, [0, 0])]"
    by (simp_all add: example_three_pending_def example_transport_def example_fresh_def)
  have buf: "take (nat 1200) [0, 1 :: 8 word] \<noteq> []" "take (nat 1200) [0, 2 :: 8 word] \<noteq> []"
    "take (nat 1200) [0, 0 :: 8 word] \<noteq> []"
    by simp_all
  have types: "Some [0, 0, 0] =
      (if insecure_mode example_env ?t then m_allPacketTypes ?t
       else m_packetTypeIsEncrypted ?t)"
    "Some [1, 1, 1] =
      (if insecure_mode example_env ?t then m_allPacketTypes ?t
       else m_packetTypeIsUnencrypted ?t)"
    by (simp_all add: insecure_mode_def GetFlags_def example_three_pending_def
        example_transport_def example_fresh_def)
  have key: "GetReceiveKey example_env (m_encryptionManager ?t) (Address_Endpoint 2)
      (GetTime ?t) = (None, [])"
    "GetReceiveKey example_env [] (Address_Endpoint 2) (GetTime ?t) = (None, [])"
    by (simp_all add: example_env_def example_three_pending_def example_transport_def
        example_fresh_def)
  have lookup: "GetContext example_env (m_contextManager ?t) (Address_Endpoint 2) = None"
    by (simp add: example_env_def example_three_pending_def example_transport_def
        example_fresh_def)
  have alloc: "(case None of Some c \<Rightarrow> context_streamAllocator c
      | None \<Rightarrow> m_streamAllocator ?t) = Some 0"
    and fac: "(case None of Some c \<Rightarrow> context_packetFactory c
      | None \<Rightarrow> m_packetFactory ?t) = Some example_factory"
    by (simp_all add: example_three_pending_def example_transport_def example_fresh_def)
  have readA: "ReadPacket example_env
      (case None of Some c \<Rightarrow> context_contextData c | None \<Rightarrow> m_context ?t)
      (take (nat 1200) [0, 1]) None (Some [0, 0, 0]) (Some [1, 1, 1]) 0 example_factory =
      Inr (\<lparr>GetType = 1, IsValid = True, packet_ident = 0\<rparr>, 0, False)"
    and readB: "ReadPacket example_env
      (case None of Some c \<Rightarrow> context_contextData c | None \<Rightarrow> m_context ?t)
      (take (nat 1200) [0, 2]) None (Some [0, 0, 0]) (Some [1, 1, 1]) 0 example_factory =
      Inr (\<lparr>GetType = 2, IsValid = True, packet_ident = 0\<rparr>, 0, False)"
    by (simp_all add: example_env_def)
  have zero: "m_counters ?t TRANSPORT_COUNTER_RECEIVE_QUEUE_OVERFLOW = 0"
    by (simp add: example_three_pending_def example_transport_def example_fresh_def)
  from ReadPackets_drain_stops_at_capacity [OF live prim proc size capacity empty pending buf
      types key(1) lookup alloc fac refl readA key(2) lookup alloc fac refl readB]
  show ?thesis
    by (simp add: zero)
qed

lemma example_three_pending_read:
  "ReadPackets example_env example_three_pending =
   Some (example_transport
     \<lparr>m_packetProcessor := Some \<lparr>processor_maxPacketSize = 1200, processor_context = None,
        processor_calls =
          [ReadPacketCall [0, 1] None (Some [0, 0, 0]) (Some [1, 1, 1]) 0 example_factory,
           ReadPacketCall [0, 2] None (Some [0, 0, 0]) (Some [1, 1, 1]) 0 example_factory]\<rparr>,
      m_counters := (\<lambda>c. 0)(TRANSPORT_COUNTER_PACKETS_READ := 2,
        TRANSPORT_COUNTER_UNENCRYPTED_PACKETS_READ := 2,
        TRANSPORT_COUNTER_RECEIVE_QUEUE_OVERFLOW := 1),
      m_receiveQueue := \<lparr>queue_entries =
          [\<lparr>entry_sequence = 0, entry_address = Address_Endpoint 2,
            entry_packet = Some \<lparr>GetType = 1, IsValid = True, packet_ident = 0\<rparr>\<rparr>,
           \<lparr>entry_sequence = 0, entry_address = Address_Endpoint 2,
            entry_packet = Some \<lparr>GetType = 2, IsValid = True, packet_ident = 0\<rparr>\<rparr>],
        queue_size = 2\<rparr>,
      io_pending := []\<rparr>)"
  by (simp add: ReadPackets_def GetMaxPacketSize_def ReadPackets_body_def
      InternalReceivePacket_def Let_def example_three_pending_def
      example_transport_def example_fresh_def example_env_def example_factory_def
      GetTime_def GetFlags_def increment_def Queue_IsFull_def Queue_Push_def fun_eq_iff)

text \<open>
  C2 as stated fails: the loop receives the third datagram before it looks at the queue,
  so after the call the raw I/O layer holds nothing, not the third datagram.
\<close>

theorem ReadPackets_third_datagram_counterexample:
  "io_pending example_three_pending =
     [(Address_Endpoint 2, [0, 1]), (Address_Endpoint 2, [0, 2]), (Address_Endpoint 3, [0, 0])] \<and>
   map_option io_pending (ReadPackets example_env example_three_pending) = Some [] \<and>
   map_option io_pending (ReadPackets example_env example_three_pending) \<noteq>
     Some [(Address_Endpoint 3, [0, 0])]"
  by (simp add: example_three_pending_read) (simp add: example_three_pending_def)

end
